theory Spec2Isabelle
  imports Main
begin

section \<open>install\_opencv.py: a shallow embedding\<close>

text \<open>
  The script is a straight-line sequence of prints, directory changes and external
  commands, with one interactive decision. Every procedure of the script becomes a
  function on the trace of effects performed so far; it returns the extended trace and
  says whether the process goes on (\<open>None\<close>) or ends there (\<open>Some\<close> of the way it ends).
  Whatever the script asks of its surroundings (what \<open>argparse\<close> makes of the command
  line, the line read from standard input, the outcome of \<open>os.chdir\<close>, \<open>os.makedirs\<close>,
  \<open>os.path.exists\<close>, \<open>json.load\<close> and of launching a command) is answered by a \<open>world\<close>,
  whose answers may depend on everything done before.

  Strings are Isabelle strings: one \<open>char\<close> per character, for the characters with a
  code point below 256. Python's characters beyond that range are outside the model.
\<close>

subsection \<open>Strings: \<open>str.lower\<close>, \<open>str.split\<close>, \<open>os.path.join\<close>\<close>

text \<open>
  \<open>c.lower()\<close> on one character: the capitals \<open>A\<close> to \<open>Z\<close> and the capitals of the
  range 192 to 222 (all but the multiplication sign, 215) move up by 32; every other
  character stays.
\<close>

definition char_lower :: "char \<Rightarrow> char" where
  "char_lower c =
     (let n = (of_char c :: nat)
      in if (65 \<le> n \<and> n \<le> 90) \<or> (192 \<le> n \<and> n \<le> 222 \<and> n \<noteq> 215)
         then char_of (n + 32) else c)"

text \<open>
  \<open>c.isspace()\<close>: tab, line feed, VT, FF, CR, FS, GS, RS, US, space, next line (133) and
  the no-break space (160).
\<close>

definition is_space :: "char \<Rightarrow> bool" where
  "is_space c = ((of_char c :: nat) \<in> {9, 10, 11, 12, 13, 28, 29, 30, 31, 32, 133, 160})"

text \<open>
  \<open>s.split()\<close> without arguments: the maximal runs of non-space characters, in order;
  \<open>w\<close> is the word being read.
\<close>

fun split_from :: "string \<Rightarrow> string \<Rightarrow> string list" where
  "split_from w [] = (if w = [] then [] else [w])"
| "split_from w (c # cs) =
     (if is_space c then (if w = [] then split_from [] cs else w # split_from [] cs)
      else split_from (w @ [c]) cs)"

definition split :: "string \<Rightarrow> string list" where
  "split s = split_from [] s"

text \<open>\<open>s.strip()\<close>, the trimming the specification speaks of.\<close>

definition strip :: "string \<Rightarrow> string" where
  "strip s = rev (dropWhile is_space (rev (dropWhile is_space s)))"

text \<open>\<open>os.path.join(a, b)\<close> of \<open>posixpath\<close>, for two components.\<close>

definition os_path_join :: "string \<Rightarrow> string \<Rightarrow> string" where
  "os_path_join a b =
     (if b \<noteq> [] \<and> hd b = CHR ''/'' then b
      else if a = [] \<or> last a = CHR ''/'' then a @ b
      else a @ ''/'' @ b)"

text \<open>\<open>str(b)\<close> for a Boolean, as \<open>format\<close> renders it.\<close>

definition str_bool :: "bool \<Rightarrow> string" where
  "str_bool b = (if b then ''True'' else ''False'')"

subsection \<open>Effects, the world, and how a process ends\<close>

datatype event =
    Print string               \<comment> \<open>\<open>print(s)\<close>: the text, without the line end that \<open>print\<close> adds\<close>
  | Print_traceback            \<comment> \<open>\<open>print(traceback.format_exc())\<close>\<close>
  | Parser_message             \<comment> \<open>the usage or help text that \<open>argparse\<close> writes before it exits\<close>
  | Input string               \<comment> \<open>\<open>input(prompt)\<close>: the prompt is written and a line is awaited\<close>
  | Chdir string               \<comment> \<open>a successful \<open>os.chdir\<close>\<close>
  | Makedirs string            \<comment> \<open>a call of \<open>os.makedirs\<close>\<close>
  | Exec "string list"         \<comment> \<open>a call of \<open>subprocess.call(argv)\<close>\<close>

datatype exn = EOFError | OSError | LoadError | TypeError | AttributeError

datatype stop =
    SysExit                    \<comment> \<open>\<open>sys.exit()\<close>, called without an argument\<close>
  | Parser_exit nat            \<comment> \<open>\<open>argparse\<close> ends the process itself, with this status\<close>
  | Uncaught exn               \<comment> \<open>an exception that no handler of the script catches\<close>

datatype mk_result = Created | File_exists | Other_error

text \<open>
  What \<open>json.load\<close> can hand back: a dictionary, given by its items in iteration order
  with each value as the text \<open>format\<close> renders for it (a JSON string renders as itself);
  or any other value, of which the script only ever asks \<open>len\<close> (\<open>None\<close> when the value
  has none, as for numbers, Booleans and \<open>null\<close>).
\<close>

datatype pyobj = Dict "(string \<times> string) list" | Non_dict "nat option"

text \<open>
  Python's decoder accepts more than JSON: the words \<open>NaN\<close>, \<open>Infinity\<close> and \<open>-Infinity\<close>
  are read as floating-point values although JSON does not have them. So a file that is
  loaded comes with the note whether its text is valid JSON. \<open>Load_raises\<close> stands for
  every way in which opening, reading or decoding the file raises.
\<close>

datatype validity = Valid_JSON | Not_valid_JSON

datatype loaded = Load_raises | Loaded validity pyobj

record world =
  getcwd :: string
  realpath :: "string \<Rightarrow> string"
  stdin_line :: "string option"
  chdir_ok :: "event list \<Rightarrow> string \<Rightarrow> bool"
  makedirs_result :: "event list \<Rightarrow> string \<Rightarrow> mk_result"
  path_exists :: "event list \<Rightarrow> string \<Rightarrow> bool"
  json_load :: "event list \<Rightarrow> string \<Rightarrow> loaded"
  launch_ok :: "event list \<Rightarrow> string list \<Rightarrow> bool"

text \<open>
  \<open>stdin_line\<close> is the line \<open>input\<close> returns, without its line end; \<open>None\<close> when the
  read fails (end of input). \<open>launch_ok\<close> says whether \<open>subprocess.call\<close> can start the
  command: when the executable is missing or may not be run it raises instead, and the
  script catches nothing. The exit status of a command that was started is not looked at,
  as in the script.
\<close>

type_synonym proc = "event list \<Rightarrow> stop option \<times> event list"

text \<open>The exit status of the interpreter for each way of ending.\<close>

fun exit_status :: "stop option \<Rightarrow> nat" where
  "exit_status None = 0"
| "exit_status (Some SysExit) = 0"
| "exit_status (Some (Parser_exit n)) = n"
| "exit_status (Some (Uncaught e)) = 1"

text \<open>Statements in sequence: the first one that ends the process ends the sequence.\<close>

fun seqs :: "proc list \<Rightarrow> proc" where
  "seqs [] t = (None, t)"
| "seqs (p # ps) t = (case p t of (None, t') \<Rightarrow> seqs ps t' | (Some s, t') \<Rightarrow> (Some s, t'))"

definition py_print :: "string \<Rightarrow> proc" where
  "py_print s t = (None, t @ [Print s])"

subsection \<open>The script\<close>

text \<open>An association list in the order of the dictionary literal (lines 20-26).\<close>

definition DEFAULT_BUILD_OPTIONS :: "(string \<times> string) list" where
  "DEFAULT_BUILD_OPTIONS =
     [(''CMAKE_BUILD_TYPE'', ''RELEASE''),
      (''CMAKE_INSTALL_PREFIX'', ''/usr/local''),
      (''INSTALL_C_EXAMPLES'', ''OFF''),
      (''INSTALL_PYTHON_EXAMPLES'', ''OFF''),
      (''BUILD_OPENCV_PYTHON2'', ''ON''),
      (''PYTHON2_INCLUDE_DIR'', ''/usr/include/python2.7''),
      (''BUILD_EXAMPLES'', ''OFF'')]"

text \<open>
  \<open>call\<close> (lines 29-32): print the command, then hand its whitespace-separated words to
  \<open>subprocess.call\<close>, which raises when the command cannot be started.
\<close>

definition call :: "world \<Rightarrow> string \<Rightarrow> proc" where
  "call w command t =
     (if launch_ok w (t @ [Print command]) (split command)
      then (None, t @ [Print command, Exec (split command)])
      else (Some (Uncaught OSError), t @ [Print command, Exec (split command)]))"

text \<open>\<open>chdir\<close> (lines 35-44).\<close>

definition chdir :: "world \<Rightarrow> string \<Rightarrow> proc" where
  "chdir w dirpath t =
     (if chdir_ok w t dirpath then (None, t @ [Chdir dirpath])
      else (Some SysExit,
            t @ [Print (''ERROR: Couldn't chdir into '' @ dirpath @ ''. Exiting.''),
                 Print_traceback]))"

text \<open>The namespace that \<open>argparse\<close> returns; \<open>vars(args)\<close> lists it in this order.\<close>

record args =
  tag :: string
  force :: bool
  build_dir :: string
  prereqs :: bool
  build_options_file :: string

definition vars :: "args \<Rightarrow> (string \<times> string) list" where
  "vars a =
     [(''tag'', tag a),
      (''force'', str_bool (force a)),
      (''build_dir'', build_dir a),
      (''prereqs'', str_bool (prereqs a)),
      (''build_options_file'', build_options_file a)]"

text \<open>The dictionary \<open>dirs\<close> of \<open>install_opencv\<close>, with its three keys.\<close>

record dirs =
  dirs_root :: string
  dirs_opencv :: string
  dirs_build :: string

text \<open>Lines 71-74.\<close>

definition make_dirs :: "world \<Rightarrow> args \<Rightarrow> dirs" where
  "make_dirs w a =
     (let r = realpath w (build_dir a);
          s = os_path_join r ''opencv'';
          b = os_path_join s ''build''
      in \<lparr>dirs_root = r, dirs_opencv = s, dirs_build = b\<rparr>)"

text \<open>\<open>download_source\<close> (lines 88-109).\<close>

definition download_source :: "world \<Rightarrow> args \<Rightarrow> dirs \<Rightarrow> proc" where
  "download_source w a d =
     seqs [py_print ''Downloading source...'',
           chdir w (dirs_root d),
           call w ''git clone https://github.com/Itseez/opencv.git'',
           chdir w (dirs_opencv d),
           call w (''git checkout tags/'' @ tag a),
           chdir w (dirs_root d)]"

text \<open>The \<open>try\<close> block of \<open>configure_build\<close> (lines 117-125).\<close>

definition create_build_dir :: "world \<Rightarrow> string \<Rightarrow> proc" where
  "create_build_dir w dirpath t =
     (case makedirs_result w t dirpath of
        Created \<Rightarrow> (None, t @ [Makedirs dirpath])
      | File_exists \<Rightarrow> (None, t @ [Makedirs dirpath])
      | Other_error \<Rightarrow>
          (Some SysExit,
           t @ [Makedirs dirpath,
                Print ''ERROR: Couldn't create the build directory. Exiting.'',
                Print_traceback]))"

text \<open>\<open>os.path.exists\<close>: the empty path names nothing.\<close>

definition os_path_exists :: "world \<Rightarrow> event list \<Rightarrow> string \<Rightarrow> bool" where
  "os_path_exists w t p = (p \<noteq> [] \<and> path_exists w t p)"

text \<open>
  Lines 136-138: \<open>len(build_options)\<close>, which raises on a value without length, and the
  defaults in place of an empty value.
\<close>

fun defaults_if_empty :: "pyobj \<Rightarrow> exn + pyobj" where
  "defaults_if_empty (Dict kvs) =
     Inr (Dict (if length kvs = 0 then DEFAULT_BUILD_OPTIONS else kvs))"
| "defaults_if_empty (Non_dict None) = Inl TypeError"
| "defaults_if_empty (Non_dict (Some n)) =
     Inr (if n = 0 then Dict DEFAULT_BUILD_OPTIONS else Non_dict (Some n))"

text \<open>
  Loading the build options (lines 130-138): the value of \<open>build_options\<close> after the
  two \<open>if\<close> statements, or the exception that \<open>open\<close>, \<open>json.load\<close> or \<open>len\<close> raises.
\<close>

definition load_build_options :: "world \<Rightarrow> args \<Rightarrow> event list \<Rightarrow> exn + pyobj" where
  "load_build_options w a t =
     (if os_path_exists w t (build_options_file a)
      then (case json_load w t (build_options_file a) of
              Load_raises \<Rightarrow> Inl LoadError
            | Loaded v build_options \<Rightarrow> defaults_if_empty build_options)
      else defaults_if_empty (Dict []))"

text \<open>The loop of lines 145-148, and the command of line 150.\<close>

definition args_string :: "(string \<times> string) list \<Rightarrow> string" where
  "args_string kvs = foldl (\<lambda>s (arg, val). s @ ''-D '' @ arg @ ''='' @ val @ '' '') [] kvs"

definition cmake_call :: "(string \<times> string) list \<Rightarrow> string" where
  "cmake_call kvs = ''cmake '' @ args_string kvs @ '' ..''"

text \<open>
  Lines 140-151: \<open>items()\<close> exists on a dictionary only; on anything else the first
  loop raises after the heading is printed.
\<close>

definition print_and_run_cmake :: "world \<Rightarrow> pyobj \<Rightarrow> proc" where
  "print_and_run_cmake w build_options =
     (case build_options of
        Dict kvs \<Rightarrow>
          seqs ([py_print ''Building OpenCV with the following options:'']
                @ map (\<lambda>(arg, val). py_print (arg @ '': '' @ val)) kvs
                @ [py_print [CHR 0x0A],
                   call w (cmake_call kvs)])
      | Non_dict n \<Rightarrow>
          (\<lambda>t. (Some (Uncaught AttributeError),
                t @ [Print ''Building OpenCV with the following options:''])))"

text \<open>Lines 129-151: the options are loaded, shown, and the generator is run.\<close>

definition load_and_run_cmake :: "world \<Rightarrow> args \<Rightarrow> proc" where
  "load_and_run_cmake w a t =
     (case load_build_options w a t of
        Inl e \<Rightarrow> (Some (Uncaught e), t)
      | Inr build_options \<Rightarrow> print_and_run_cmake w build_options t)"

text \<open>\<open>configure_build\<close> (lines 113-151).\<close>

definition configure_build :: "world \<Rightarrow> args \<Rightarrow> dirs \<Rightarrow> proc" where
  "configure_build w a d =
     seqs [create_build_dir w (dirs_build d),
           chdir w (dirs_build d),
           load_and_run_cmake w a]"

text \<open>\<open>build\<close> (lines 155-158) and \<open>install\<close> (lines 162-166).\<close>

definition build :: "world \<Rightarrow> args \<Rightarrow> dirs \<Rightarrow> proc" where
  "build w a d = seqs [chdir w (dirs_build d), call w ''make -j 3'']"

definition install :: "world \<Rightarrow> args \<Rightarrow> dirs \<Rightarrow> proc" where
  "install w a d =
     seqs [chdir w (dirs_build d), call w ''sudo make install'', call w ''sudo ldconfig'']"

text \<open>\<open>install_prereqs\<close> (lines 170-177).\<close>

definition install_prereqs :: "world \<Rightarrow> proc" where
  "install_prereqs w =
     seqs [py_print ''Installing prerequisites...'',
           call w ''sudo apt-get update'',
           call w ''sudo apt-get upgrade'',
           call w ''sudo apt-get install build-essential cmake git pkg-config libjpeg8-dev libjasper-dev libpng12-dev libgtk2.0-dev libavcodec-dev libavformat-dev libswscale-dev libv4l-dev libatlas-base-dev gfortran python-dev python-numpy python3-dev python3-numpy'']"

text \<open>The part of \<open>install_opencv\<close> after the confirmation (lines 70-84).\<close>

definition stages :: "world \<Rightarrow> args \<Rightarrow> proc" where
  "stages w a =
     (let d = make_dirs w a
      in seqs [download_source w a d, configure_build w a d, build w a d, install w a d])"

text \<open>Lines 52-55.\<close>

definition show_options :: "args \<Rightarrow> proc" where
  "show_options a =
     seqs ([py_print (CHR 0x0A # ''Selected installation options: '')]
           @ map (\<lambda>(arg, val). py_print (arg @ '': '' @ val)) (vars a)
           @ [py_print [CHR 0x0A]])"

text \<open>
  The confirmation (lines 58-67). \<open>input\<close> is called outside the \<open>try\<close>, so a failed
  read is not caught; \<open>proceed[0]\<close> on the empty line raises inside it and is caught.
\<close>

definition confirm :: "world \<Rightarrow> proc \<Rightarrow> proc" where
  "confirm w rest t =
     (let t1 = t @ [Input ''Proceed with the installation? '']
      in case stdin_line w of
           None \<Rightarrow> (Some (Uncaught EOFError), t1)
         | Some proceed \<Rightarrow>
             (case proceed of
                [] \<Rightarrow> (None, t1 @ [Print ''Exiting (exception)'', Print_traceback])
              | c # cs \<Rightarrow>
                  if char_lower c \<noteq> CHR ''y'' then (None, t1 @ [Print ''Exiting.''])
                  else rest t1))"

text \<open>\<open>install_opencv\<close> (lines 48-84).\<close>

definition install_opencv :: "world \<Rightarrow> args \<Rightarrow> proc" where
  "install_opencv w a =
     seqs [show_options a,
           (if \<not> force a then confirm w (stages w a) else stages w a)]"

text \<open>
  \<open>parse_command_line_args\<close> (lines 181-208). Reading the command line is the work of
  \<open>parser.parse_args()\<close>: it either ends the process itself, with status 2 after a usage
  message when the command line is malformed and with status 0 after the help text when
  help is asked for, or it recognises a sequence of option occurrences. The model starts
  from that outcome; for the occurrences, in command-line order, there is one
  constructor per \<open>add_argument\<close>, with the default and the action the script declares.
\<close>

datatype cli_opt =
    Opt_tag string                  \<comment> \<open>\<open>-t\<close>, \<open>--tag\<close>\<close>
  | Opt_force                       \<comment> \<open>\<open>-f\<close>, \<open>--force\<close>: \<open>store_true\<close>\<close>
  | Opt_build_dir string            \<comment> \<open>\<open>-d\<close>, \<open>--build-dir\<close>\<close>
  | Opt_prereqs                     \<comment> \<open>\<open>-p\<close>, \<open>--prereqs\<close>: \<open>store_false\<close>\<close>
  | Opt_build_options_file string   \<comment> \<open>\<open>-b\<close>, \<open>--build-options-file\<close>\<close>

datatype cmdline = Malformed | Help | Options "cli_opt list"

definition default_args :: "world \<Rightarrow> args" where
  "default_args w =
     \<lparr>tag = ''3.3.1'', force = False, build_dir = getcwd w, prereqs = True,
      build_options_file = ''''\<rparr>"

fun take_action :: "args \<Rightarrow> cli_opt \<Rightarrow> args" where
  "take_action a (Opt_tag v) = a\<lparr>tag := v\<rparr>"
| "take_action a Opt_force = a\<lparr>force := True\<rparr>"
| "take_action a (Opt_build_dir v) = a\<lparr>build_dir := v\<rparr>"
| "take_action a Opt_prereqs = a\<lparr>prereqs := False\<rparr>"
| "take_action a (Opt_build_options_file v) = a\<lparr>build_options_file := v\<rparr>"

text \<open>The namespace, or the status with which the parser ends the process.\<close>

fun parse_command_line_args :: "world \<Rightarrow> cmdline \<Rightarrow> nat + args" where
  "parse_command_line_args w Malformed = Inl 2"
| "parse_command_line_args w Help = Inl 0"
| "parse_command_line_args w (Options opts) = Inr (foldl take_action (default_args w) opts)"

text \<open>The main block (lines 212-219), from the parsed arguments on, and the program.\<close>

definition main_block :: "world \<Rightarrow> args \<Rightarrow> proc" where
  "main_block w a =
     seqs ((if prereqs a then [install_prereqs w] else []) @ [install_opencv w a])"

definition program :: "world \<Rightarrow> cmdline \<Rightarrow> stop option \<times> event list" where
  "program w c =
     (case parse_command_line_args w c of
        Inl status \<Rightarrow> (Some (Parser_exit status), [Parser_message])
      | Inr a \<Rightarrow> main_block w a [])"

text \<open>
  The statements of the four stages, one after the other, as \<open>install_opencv\<close> runs them
  after the confirmation.
\<close>

definition stage_steps :: "world \<Rightarrow> args \<Rightarrow> proc list" where
  "stage_steps w a =
     (let d = make_dirs w a
      in [py_print ''Downloading source...'',
          chdir w (dirs_root d),
          call w ''git clone https://github.com/Itseez/opencv.git'',
          chdir w (dirs_opencv d),
          call w (''git checkout tags/'' @ tag a),
          chdir w (dirs_root d),
          create_build_dir w (dirs_build d),
          chdir w (dirs_build d),
          load_and_run_cmake w a,
          chdir w (dirs_build d),
          call w ''make -j 3'',
          chdir w (dirs_build d),
          call w ''sudo make install'',
          call w ''sudo ldconfig''])"

subsection \<open>Reading a trace\<close>

text \<open>The argument vectors handed to \<open>subprocess.call\<close>, in order.\<close>

fun commands :: "event list \<Rightarrow> string list list" where
  "commands [] = []"
| "commands (Exec argv # es) = argv # commands es"
| "commands (e # es) = commands es"

text \<open>
  The command lines printed by \<open>call\<close>: each printed line whose words are handed to
  \<open>subprocess.call\<close> right after.
\<close>

fun command_lines :: "event list \<Rightarrow> string list" where
  "command_lines (Print s # Exec argv # es) = s # command_lines es"
| "command_lines (e # es) = command_lines es"
| "command_lines [] = []"

text \<open>The prompts shown.\<close>

fun prompts :: "event list \<Rightarrow> string list" where
  "prompts [] = []"
| "prompts (Input p # es) = p # prompts es"
| "prompts (e # es) = prompts es"

text \<open>The effects that can change the file system or reach the network.\<close>

fun mutations :: "event list \<Rightarrow> event list" where
  "mutations [] = []"
| "mutations (Exec argv # es) = Exec argv # mutations es"
| "mutations (Makedirs p # es) = Makedirs p # mutations es"
| "mutations (e # es) = mutations es"

text \<open>The directories entered or created.\<close>

fun paths :: "event list \<Rightarrow> string list" where
  "paths [] = []"
| "paths (Chdir p # es) = p # paths es"
| "paths (Makedirs p # es) = p # paths es"
| "paths (e # es) = paths es"

text \<open>
  A procedure emits \<open>P\<close> when it only ever adds to the trace, and adds nothing but
  effects of which \<open>P\<close> holds.
\<close>

definition emits :: "(event \<Rightarrow> bool) \<Rightarrow> proc \<Rightarrow> bool" where
  "emits P p = (\<forall>t. \<exists>es. snd (p t) = t @ es \<and> (\<forall>e \<in> set es. P e))"

subsection \<open>The specification's reading of the gate and of the generator invocation\<close>

text \<open>
  The specification's wording of the confirmation: proceed exactly when the first
  character of the trimmed line, lower-cased, is \<open>y\<close>.
\<close>

definition spec_gate_proceeds :: "string \<Rightarrow> bool" where
  "spec_gate_proceeds line =
     (case strip line of [] \<Rightarrow> False | c # cs \<Rightarrow> char_lower c = CHR ''y'')"

text \<open>
  The specification's wording of the generator invocation: the tool, one pair of tokens
  \<open>-D\<close>, \<open>key=value\<close> per entry in the mapping's order, then the parent directory.
\<close>

definition spec_cmake_tokens :: "(string \<times> string) list \<Rightarrow> string list" where
  "spec_cmake_tokens kvs =
     ''cmake'' # concat (map (\<lambda>(arg, val). [''-D'', arg @ ''='' @ val]) kvs) @ [''..'']"

subsection \<open>Worlds and arguments for examples\<close>

text \<open>
  A world with constant answers: the line on standard input, whether directories can be
  entered, what \<open>os.makedirs\<close> does, and the build-options file (\<open>None\<close> when there is
  no such file). Every command can be started. Paths are taken to be canonical already.
\<close>

definition const_world :: "string option \<Rightarrow> bool \<Rightarrow> mk_result \<Rightarrow> loaded option \<Rightarrow> world" where
  "const_world line cd mk file =
     \<lparr>getcwd = ''/home/user'', realpath = (\<lambda>p. p), stdin_line = line,
      chdir_ok = (\<lambda>t p. cd), makedirs_result = (\<lambda>t p. mk),
      path_exists = (\<lambda>t p. file \<noteq> None),
      json_load = (\<lambda>t p. case file of None \<Rightarrow> Load_raises | Some l \<Rightarrow> l),
      launch_ok = (\<lambda>t argv. True)\<rparr>"

text \<open>The same world on a machine without \<open>git\<close>.\<close>

definition no_git_world :: world where
  "no_git_world =
     (const_world None True Created None)\<lparr>launch_ok := (\<lambda>t argv. hd argv \<noteq> ''git'')\<rparr>"

text \<open>
  The same world after a clone that has failed: every directory can be entered but the
  one the clone would have made.
\<close>

definition no_clone_world :: world where
  "no_clone_world =
     (const_world None True Created None)\<lparr>chdir_ok := (\<lambda>t p. p \<noteq> ''/tmp/x/opencv'')\<rparr>"

definition scenario_args :: args where
  "scenario_args =
     \<lparr>tag = ''4.0.0'', force = True, build_dir = ''/tmp/x'', prereqs = False,
      build_options_file = ''''\<rparr>"

section \<open>Properties\<close>

subsection \<open>Characters and words\<close>

lemma char_lower_y: "char_lower c = CHR ''y'' \<longleftrightarrow> c = CHR ''y'' \<or> c = CHR ''Y''"
proof -
  have y: "c = CHR ''y'' \<longleftrightarrow> (of_char c :: nat) = 121"
    using of_char_eq_iff [of c "CHR ''y''", where ?'a = nat] by simp
  have Y: "c = CHR ''Y'' \<longleftrightarrow> (of_char c :: nat) = 89"
    using of_char_eq_iff [of c "CHR ''Y''", where ?'a = nat] by simp
  have "take_bit 8 ((of_char c :: nat) + 32) = 121 \<longleftrightarrow> (of_char c :: nat) = 89"
    if "(of_char c :: nat) \<le> 222"
    using that by (simp add: take_bit_eq_mod)
  then show ?thesis
    using y Y by (auto simp: char_lower_def Let_def char_of_eq_iff)
qed

lemma split_from_word:
  "\<forall>c \<in> set u. \<not> is_space c \<Longrightarrow> split_from w (u @ s) = split_from (w @ u) s"
  by (induction u arbitrary: w) simp_all

lemma split_update: "split ''sudo apt-get update'' = [''sudo'', ''apt-get'', ''update'']"
  by (simp add: split_def is_space_def)

lemma split_upgrade: "split ''sudo apt-get upgrade'' = [''sudo'', ''apt-get'', ''upgrade'']"
  by (simp add: split_def is_space_def)

lemma split_install_packages:
  "split ''sudo apt-get install build-essential cmake git pkg-config libjpeg8-dev libjasper-dev libpng12-dev libgtk2.0-dev libavcodec-dev libavformat-dev libswscale-dev libv4l-dev libatlas-base-dev gfortran python-dev python-numpy python3-dev python3-numpy'' =
     [''sudo'', ''apt-get'', ''install'', ''build-essential'', ''cmake'', ''git'', ''pkg-config'',
      ''libjpeg8-dev'', ''libjasper-dev'', ''libpng12-dev'', ''libgtk2.0-dev'', ''libavcodec-dev'',
      ''libavformat-dev'', ''libswscale-dev'', ''libv4l-dev'', ''libatlas-base-dev'', ''gfortran'',
      ''python-dev'', ''python-numpy'', ''python3-dev'', ''python3-numpy'']"
  by (simp add: split_def is_space_def)

lemma split_clone:
  "split ''git clone https://github.com/Itseez/opencv.git'' =
     [''git'', ''clone'', ''https://github.com/Itseez/opencv.git'']"
  by (simp add: split_def is_space_def)

lemma split_checkout:
  "split (''git checkout tags/'' @ x) = ''git'' # ''checkout'' # split_from ''tags/'' x"
  by (simp add: split_def is_space_def)

lemma split_make: "split ''make -j 3'' = [''make'', ''-j'', ''3'']"
  by (simp add: split_def is_space_def)

lemma split_make_install: "split ''sudo make install'' = [''sudo'', ''make'', ''install'']"
  by (simp add: split_def is_space_def)

lemma split_ldconfig: "split ''sudo ldconfig'' = [''sudo'', ''ldconfig'']"
  by (simp add: split_def is_space_def)

lemma split_cmake:
  "split (cmake_call kvs) = ''cmake'' # split_from [] (args_string kvs @ '' ..'')"
  by (simp add: split_def cmake_call_def is_space_def)

subsection \<open>Sequencing and the primitive statements\<close>

lemma seqs_append:
  "seqs (ps @ qs) t = (case seqs ps t of (None, t') \<Rightarrow> seqs qs t' | (Some s, t') \<Rightarrow> (Some s, t'))"
  by (induction ps arbitrary: t) (auto split: prod.splits option.splits)

lemma seqs_single: "seqs [p] t = p t"
  by (auto split: prod.splits option.splits)

lemma seqs_flat: "seqs (seqs ps # qs) t = seqs (ps @ qs) t"
  by (simp add: seqs_append)

lemma seqs_stop_at:
  "seqs qs t = (None, t') \<Longrightarrow> p t' = (Some s, t'') \<Longrightarrow> seqs (qs @ p # rest) t = (Some s, t'')"
  by (simp add: seqs_append)

lemma seqs_prints:
  "seqs (map (\<lambda>(arg, val). py_print (f arg val)) kvs) t =
     (None, t @ map (\<lambda>(arg, val). Print (f arg val)) kvs)"
  by (induction kvs arbitrary: t) (auto simp: py_print_def)

lemma show_options_eq:
  "show_options a t =
     (None, t @ [Print (CHR 0x0A # ''Selected installation options: ''),
                 Print (''tag: '' @ tag a),
                 Print (''force: '' @ str_bool (force a)),
                 Print (''build_dir: '' @ build_dir a),
                 Print (''prereqs: '' @ str_bool (prereqs a)),
                 Print (''build_options_file: '' @ build_options_file a),
                 Print [CHR 0x0A]])"
  by (simp add: show_options_def vars_def py_print_def)

lemma call_eq:
  "call w c t =
     (if launch_ok w (t @ [Print c]) (split c) then None else Some (Uncaught OSError),
      t @ [Print c, Exec (split c)])"
  by (simp add: call_def)

lemma call_ok:
  "launch_ok w (t @ [Print c]) (split c) \<Longrightarrow> call w c t = (None, t @ [Print c, Exec (split c)])"
  by (simp add: call_def)

lemma chdir_ok_eq: "chdir_ok w t p \<Longrightarrow> chdir w p t = (None, t @ [Chdir p])"
  by (simp add: chdir_def)

lemma chdir_fails_eq:
  "\<not> chdir_ok w t p \<Longrightarrow>
   chdir w p t =
     (Some SysExit,
      t @ [Print (''ERROR: Couldn't chdir into '' @ p @ ''. Exiting.''), Print_traceback])"
  by (simp add: chdir_def)

lemma create_build_dir_ok:
  "makedirs_result w t p \<noteq> Other_error \<Longrightarrow> create_build_dir w p t = (None, t @ [Makedirs p])"
  by (cases "makedirs_result w t p") (simp_all add: create_build_dir_def)

lemma create_build_dir_fails:
  "makedirs_result w t p = Other_error \<Longrightarrow>
   create_build_dir w p t =
     (Some SysExit,
      t @ [Makedirs p, Print ''ERROR: Couldn't create the build directory. Exiting.'',
           Print_traceback])"
  by (simp add: create_build_dir_def)

lemma commands_append: "commands (xs @ ys) = commands xs @ commands ys"
  by (induction xs rule: commands.induct) simp_all

lemma mutations_append: "mutations (xs @ ys) = mutations xs @ mutations ys"
  by (induction xs rule: mutations.induct) simp_all

lemma paths_append: "paths (xs @ ys) = paths xs @ paths ys"
  by (induction xs rule: paths.induct) simp_all

lemma commands_prints: "commands (map (\<lambda>(arg, val). Print (f arg val)) kvs) = []"
  by (induction kvs) auto

lemma paths_prints: "paths (map (\<lambda>(arg, val). Print (f arg val)) kvs) = []"
  by (induction kvs) auto

lemma commands_show_options: "commands (snd (show_options a t)) = commands t"
  by (simp add: show_options_eq commands_append)

lemma mutations_show_options: "mutations (snd (show_options a t)) = mutations t"
  by (simp add: show_options_eq mutations_append)

lemma print_and_run_cmake_Dict:
  "print_and_run_cmake w (Dict kvs) t =
     (if launch_ok w
           (t @ [Print ''Building OpenCV with the following options:'']
              @ map (\<lambda>(arg, val). Print (arg @ '': '' @ val)) kvs
              @ [Print [CHR 0x0A], Print (cmake_call kvs)])
           (split (cmake_call kvs))
      then None else Some (Uncaught OSError),
      t @ [Print ''Building OpenCV with the following options:'']
        @ map (\<lambda>(arg, val). Print (arg @ '': '' @ val)) kvs
        @ [Print [CHR 0x0A], Print (cmake_call kvs), Exec (split (cmake_call kvs))])"
  by (simp add: print_and_run_cmake_def seqs_append seqs_prints py_print_def call_def)

lemma seqs_four:
  "seqs [seqs A, seqs B, seqs C, seqs D] t = seqs (A @ B @ C @ D) t"
  by (auto simp: seqs_append split: prod.splits option.splits)

lemma stages_flat: "stages w a t = seqs (stage_steps w a) t"
  by (simp only: stages_def stage_steps_def Let_def download_source_def configure_build_def
        build_def install_def seqs_four append.simps)

subsection \<open>The stages when every directory operation and every launch succeeds\<close>

lemma download_source_ok:
  assumes "\<forall>t p. chdir_ok w t p" and "\<forall>t argv. launch_ok w t argv"
  shows "download_source w a d t =
     (None,
      t @ [Print ''Downloading source...'',
           Chdir (dirs_root d),
           Print ''git clone https://github.com/Itseez/opencv.git'',
           Exec (split ''git clone https://github.com/Itseez/opencv.git''),
           Chdir (dirs_opencv d),
           Print (''git checkout tags/'' @ tag a),
           Exec (split (''git checkout tags/'' @ tag a)),
           Chdir (dirs_root d)])"
  using assms by (simp add: download_source_def py_print_def call_def chdir_ok_eq)

lemma load_no_file:
  "\<not> os_path_exists w t (build_options_file a) \<Longrightarrow>
   load_build_options w a t = Inr (Dict DEFAULT_BUILD_OPTIONS)"
  by (simp add: load_build_options_def)

lemma load_empty_mapping:
  "json_load w t (build_options_file a) = Loaded v (Dict []) \<Longrightarrow>
   load_build_options w a t = Inr (Dict DEFAULT_BUILD_OPTIONS)"
  by (simp add: load_build_options_def)

lemma configure_build_ok:
  assumes "makedirs_result w t (dirs_build d) \<noteq> Other_error"
    and "chdir_ok w (t @ [Makedirs (dirs_build d)]) (dirs_build d)"
    and "load_build_options w a (t @ [Makedirs (dirs_build d), Chdir (dirs_build d)]) = Inr (Dict kvs)"
  shows "configure_build w a d t =
     (if launch_ok w
           (t @ [Makedirs (dirs_build d), Chdir (dirs_build d),
                 Print ''Building OpenCV with the following options:'']
              @ map (\<lambda>(arg, val). Print (arg @ '': '' @ val)) kvs
              @ [Print [CHR 0x0A], Print (cmake_call kvs)])
           (split (cmake_call kvs))
      then None else Some (Uncaught OSError),
      t @ [Makedirs (dirs_build d), Chdir (dirs_build d),
           Print ''Building OpenCV with the following options:'']
        @ map (\<lambda>(arg, val). Print (arg @ '': '' @ val)) kvs
        @ [Print [CHR 0x0A], Print (cmake_call kvs), Exec (split (cmake_call kvs))])"
  using assms
  by (simp add: configure_build_def create_build_dir_ok chdir_ok_eq load_and_run_cmake_def
        print_and_run_cmake_Dict)

lemma build_ok:
  assumes "\<forall>t p. chdir_ok w t p" and "\<forall>t argv. launch_ok w t argv"
  shows "build w a d t =
     (None, t @ [Chdir (dirs_build d), Print ''make -j 3'', Exec (split ''make -j 3'')])"
  using assms by (simp add: build_def call_def chdir_ok_eq)

lemma install_ok:
  assumes "\<forall>t p. chdir_ok w t p" and "\<forall>t argv. launch_ok w t argv"
  shows "install w a d t =
     (None, t @ [Chdir (dirs_build d), Print ''sudo make install'',
                 Exec (split ''sudo make install''),
                 Print ''sudo ldconfig'', Exec (split ''sudo ldconfig'')])"
  using assms by (simp add: install_def call_def chdir_ok_eq)

lemma cmake_call_default:
  "cmake_call DEFAULT_BUILD_OPTIONS =
     ''cmake -D CMAKE_BUILD_TYPE=RELEASE -D CMAKE_INSTALL_PREFIX=/usr/local -D INSTALL_C_EXAMPLES=OFF -D INSTALL_PYTHON_EXAMPLES=OFF -D BUILD_OPENCV_PYTHON2=ON -D PYTHON2_INCLUDE_DIR=/usr/include/python2.7 -D BUILD_EXAMPLES=OFF  ..''"
  by (simp add: cmake_call_def args_string_def DEFAULT_BUILD_OPTIONS_def)

lemma stages_ok:
  assumes cd: "\<forall>t p. chdir_ok w t p"
    and la: "\<forall>t argv. launch_ok w t argv"
    and mk: "\<forall>t p. makedirs_result w t p \<noteq> Other_error"
    and ld: "\<forall>t. load_build_options w a t = Inr (Dict kvs)"
  shows "stages w a t =
     (None,
      t @ [Print ''Downloading source...'',
           Chdir (dirs_root (make_dirs w a)),
           Print ''git clone https://github.com/Itseez/opencv.git'',
           Exec (split ''git clone https://github.com/Itseez/opencv.git''),
           Chdir (dirs_opencv (make_dirs w a)),
           Print (''git checkout tags/'' @ tag a),
           Exec (split (''git checkout tags/'' @ tag a)),
           Chdir (dirs_root (make_dirs w a)),
           Makedirs (dirs_build (make_dirs w a)),
           Chdir (dirs_build (make_dirs w a)),
           Print ''Building OpenCV with the following options:'']
        @ map (\<lambda>(arg, val). Print (arg @ '': '' @ val)) kvs
        @ [Print [CHR 0x0A], Print (cmake_call kvs), Exec (split (cmake_call kvs)),
           Chdir (dirs_build (make_dirs w a)), Print ''make -j 3'',
           Exec (split ''make -j 3''),
           Chdir (dirs_build (make_dirs w a)), Print ''sudo make install'',
           Exec (split ''sudo make install''),
           Print ''sudo ldconfig'', Exec (split ''sudo ldconfig'')])"
  using cd la mk ld
  by (simp add: stages_def Let_def download_source_ok configure_build_ok build_ok install_ok)

lemma install_prereqs_ok:
  assumes "\<forall>t argv. launch_ok w t argv"
  shows "install_prereqs w t =
     (None,
      t @ [Print ''Installing prerequisites...'',
           Print ''sudo apt-get update'',
           Exec [''sudo'', ''apt-get'', ''update''],
           Print ''sudo apt-get upgrade'',
           Exec [''sudo'', ''apt-get'', ''upgrade''],
           Print ''sudo apt-get install build-essential cmake git pkg-config libjpeg8-dev libjasper-dev libpng12-dev libgtk2.0-dev libavcodec-dev libavformat-dev libswscale-dev libv4l-dev libatlas-base-dev gfortran python-dev python-numpy python3-dev python3-numpy'',
           Exec [''sudo'', ''apt-get'', ''install'', ''build-essential'', ''cmake'', ''git'',
                 ''pkg-config'', ''libjpeg8-dev'', ''libjasper-dev'', ''libpng12-dev'',
                 ''libgtk2.0-dev'', ''libavcodec-dev'', ''libavformat-dev'', ''libswscale-dev'',
                 ''libv4l-dev'', ''libatlas-base-dev'', ''gfortran'', ''python-dev'',
                 ''python-numpy'', ''python3-dev'', ''python3-numpy'']])"
  using assms
  by (simp add: install_prereqs_def py_print_def call_def split_update split_upgrade
        split_install_packages)

lemma install_prereqs_first:
  "\<exists>es. snd (install_prereqs w t) =
         t @ [Print ''Installing prerequisites...'', Print ''sudo apt-get update'',
              Exec [''sudo'', ''apt-get'', ''update'']] @ es"
  by (simp add: install_prereqs_def py_print_def call_def split_update)

lemma install_opencv_eq:
  "install_opencv w a t =
     (if force a then stages w a (snd (show_options a t))
      else confirm w (stages w a) (snd (show_options a t)))"
  by (auto simp: install_opencv_def show_options_eq split: prod.splits option.splits)

lemma main_block_eq:
  "main_block w a [] =
     (case (if prereqs a then install_prereqs w [] else (None, [])) of
        (None, t0) \<Rightarrow> install_opencv w a t0
      | (Some s, t0) \<Rightarrow> (Some s, t0))"
  by (auto simp: main_block_def seqs_single split: prod.splits option.splits)

subsection \<open>What the procedures add to the trace\<close>

lemma emitsI: "(\<And>t. \<exists>es. snd (p t) = t @ es \<and> (\<forall>e \<in> set es. P e)) \<Longrightarrow> emits P p"
  by (simp add: emits_def)

lemma emits_py_print: "P (Print s) \<Longrightarrow> emits P (py_print s)"
  by (simp add: emits_def py_print_def)

lemma emits_call: "P (Print c) \<Longrightarrow> P (Exec (split c)) \<Longrightarrow> emits P (call w c)"
  by (simp add: emits_def call_eq)

lemma emits_chdir:
  "P (Chdir p) \<Longrightarrow> \<forall>s. P (Print s) \<Longrightarrow> P Print_traceback \<Longrightarrow> emits P (chdir w p)"
  by (simp add: emits_def chdir_def)

lemma emits_create_build_dir:
  "P (Makedirs p) \<Longrightarrow> \<forall>s. P (Print s) \<Longrightarrow> P Print_traceback \<Longrightarrow>
   emits P (create_build_dir w p)"
  by (auto simp: emits_def create_build_dir_def split: mk_result.splits)

lemma emits_seqs:
  assumes "\<forall>p \<in> set ps. emits P p"
  shows "emits P (seqs ps)"
proof (rule emitsI)
  fix t
  show "\<exists>es. snd (seqs ps t) = t @ es \<and> (\<forall>e \<in> set es. P e)"
    using assms
  proof (induction ps arbitrary: t)
    case Nil
    show ?case by simp
  next
    case (Cons p ps)
    obtain r t' where pt: "p t = (r, t')" by (cases "p t")
    obtain es where es: "t' = t @ es" "\<forall>e \<in> set es. P e"
      using Cons.prems pt by (metis emits_def list.set_intros(1) snd_conv)
    show ?case
    proof (cases r)
      case None
      obtain es' where es': "snd (seqs ps t') = t' @ es'" "\<forall>e \<in> set es'. P e"
        using Cons by (metis list.set_intros(2))
      have "snd (seqs (p # ps) t) = t @ (es @ es')"
        using pt None es es' by simp
      then show ?thesis using es es' by (metis Un_iff set_append)
    next
      case (Some s)
      then show ?thesis using pt es by auto
    qed
  qed
qed

lemma emits_load_and_run_cmake:
  assumes "\<forall>s. P (Print s)" and "\<forall>kvs. P (Exec (split (cmake_call kvs)))"
  shows "emits P (load_and_run_cmake w a)"
proof (rule emitsI)
  fix t
  show "\<exists>es. snd (load_and_run_cmake w a t) = t @ es \<and> (\<forall>e \<in> set es. P e)"
  proof (cases "load_build_options w a t")
    case (Inl e)
    then show ?thesis by (simp add: load_and_run_cmake_def)
  next
    case (Inr b)
    show ?thesis
    proof (cases b)
      case (Dict kvs)
      have "\<forall>e \<in> set (map (\<lambda>(arg, val). Print (arg @ '': '' @ val)) kvs). P e"
        using assms by auto
      then show ?thesis
        using Inr Dict assms
        by (auto simp: load_and_run_cmake_def print_and_run_cmake_Dict)
    next
      case (Non_dict n)
      then show ?thesis
        using Inr assms by (simp add: load_and_run_cmake_def print_and_run_cmake_def)
    qed
  qed
qed

lemma emits_stages:
  assumes pr: "\<forall>s. P (Print s)" and tb: "P Print_traceback"
    and cd: "P (Chdir (dirs_root (make_dirs w a)))" "P (Chdir (dirs_opencv (make_dirs w a)))"
      "P (Chdir (dirs_build (make_dirs w a)))"
    and mk: "P (Makedirs (dirs_build (make_dirs w a)))"
    and ex: "P (Exec (split ''git clone https://github.com/Itseez/opencv.git''))"
      "P (Exec (split (''git checkout tags/'' @ tag a)))"
      "\<forall>kvs. P (Exec (split (cmake_call kvs)))"
      "P (Exec (split ''make -j 3''))"
      "P (Exec (split ''sudo make install''))"
      "P (Exec (split ''sudo ldconfig''))"
  shows "emits P (stages w a)"
proof -
  have "\<forall>p \<in> set (stage_steps w a). emits P p"
    using assms
    by (simp add: stage_steps_def Let_def emits_py_print emits_call emits_chdir
          emits_create_build_dir emits_load_and_run_cmake)
  then have "emits P (seqs (stage_steps w a))"
    by (rule emits_seqs)
  then show ?thesis
    by (simp add: emits_def stages_flat)
qed

lemma emits_confirm:
  assumes "emits P rest" and "\<forall>s. P (Print s)" and "P Print_traceback" and "\<forall>s. P (Input s)"
  shows "emits P (confirm w rest)"
proof (rule emitsI)
  fix t
  obtain es where es: "snd (rest (t @ [Input ''Proceed with the installation? ''])) =
      (t @ [Input ''Proceed with the installation? '']) @ es" "\<forall>e \<in> set es. P e"
    using assms(1) by (metis emits_def)
  show "\<exists>es. snd (confirm w rest t) = t @ es \<and> (\<forall>e \<in> set es. P e)"
    using assms(2-4) es
    by (auto simp: confirm_def Let_def split: option.splits list.splits)
qed

lemma emits_install_opencv:
  assumes "emits P (stages w a)" and "\<forall>s. P (Print s)" and "P Print_traceback"
    and "\<forall>s. P (Input s)"
  shows "emits P (install_opencv w a)"
proof -
  have s: "emits P (show_options a)"
    using assms(2) by (simp add: emits_def show_options_eq)
  have "emits P (if \<not> force a then confirm w (stages w a) else stages w a)"
    using assms emits_confirm by simp
  then show ?thesis
    unfolding install_opencv_def using s by (intro emits_seqs) simp
qed

lemma in_set_commands: "argv \<in> set (commands tr) \<longleftrightarrow> Exec argv \<in> set tr"
  by (induction tr rule: commands.induct) auto

lemma install_opencv_no_update:
  "emits (\<lambda>e. e \<noteq> Exec [''sudo'', ''apt-get'', ''update'']) (install_opencv w a)"
proof -
  let ?P = "\<lambda>e. e \<noteq> Exec [''sudo'', ''apt-get'', ''update'']"
  have c: "split (''git checkout tags/'' @ tag a) \<noteq> [''sudo'', ''apt-get'', ''update'']"
    by (subst split_checkout) simp
  have "emits ?P (stages w a)"
    by (rule emits_stages)
       (insert c, simp_all add: split_clone split_cmake split_make split_make_install
          split_ldconfig)
  then show ?thesis
    by (rule emits_install_opencv) simp_all
qed

subsection \<open>The option resolver\<close>

lemma foldl_take_action:
  "foldl take_action a opts =
     \<lparr>tag = last (tag a # [v. Opt_tag v \<leftarrow> opts]),
      force = (force a \<or> Opt_force \<in> set opts),
      build_dir = last (build_dir a # [v. Opt_build_dir v \<leftarrow> opts]),
      prereqs = (prereqs a \<and> Opt_prereqs \<notin> set opts),
      build_options_file =
        last (build_options_file a # [v. Opt_build_options_file v \<leftarrow> opts])\<rparr>"
proof (induction opts arbitrary: a)
  case Nil
  show ?case by simp
next
  case (Cons x xs)
  show ?case by (cases x) (auto simp: Cons.IH)
qed

text \<open>
  C9. When the parser recognises the options, each field of the namespace holds the value
  of the last occurrence of its option and otherwise its default: the tag \<open>3.3.1\<close>, no
  forcing, the current working directory as build directory, the empty build-options
  file, and \<open>prereqs = True\<close>, which the prerequisites flag turns to \<open>False\<close>. The
  package-index refresh \<open>sudo apt-get update\<close> is run exactly when the flag does not
  occur; and when commands can be started, the program is \<open>install_opencv\<close>, preceded
  exactly in that case by the three package-manager commands.
\<close>

theorem option_defaults:
  "parse_command_line_args w (Options opts) =
     Inr \<lparr>tag = last (''3.3.1'' # [v. Opt_tag v \<leftarrow> opts]),
          force = (Opt_force \<in> set opts),
          build_dir = last (getcwd w # [v. Opt_build_dir v \<leftarrow> opts]),
          prereqs = (Opt_prereqs \<notin> set opts),
          build_options_file = last ('''' # [v. Opt_build_options_file v \<leftarrow> opts])\<rparr>
   \<and> (Exec [''sudo'', ''apt-get'', ''update''] \<in> set (snd (program w (Options opts))))
       = (Opt_prereqs \<notin> set opts)
   \<and> ((\<forall>t argv. launch_ok w t argv) \<longrightarrow>
        program w (Options opts) =
          install_opencv w (foldl take_action (default_args w) opts)
            (if Opt_prereqs \<in> set opts then []
             else [Print ''Installing prerequisites...'',
                   Print ''sudo apt-get update'',
                   Exec [''sudo'', ''apt-get'', ''update''],
                   Print ''sudo apt-get upgrade'',
                   Exec [''sudo'', ''apt-get'', ''upgrade''],
                   Print ''sudo apt-get install build-essential cmake git pkg-config libjpeg8-dev libjasper-dev libpng12-dev libgtk2.0-dev libavcodec-dev libavformat-dev libswscale-dev libv4l-dev libatlas-base-dev gfortran python-dev python-numpy python3-dev python3-numpy'',
                   Exec [''sudo'', ''apt-get'', ''install'', ''build-essential'', ''cmake'',
                         ''git'', ''pkg-config'', ''libjpeg8-dev'', ''libjasper-dev'',
                         ''libpng12-dev'', ''libgtk2.0-dev'', ''libavcodec-dev'',
                         ''libavformat-dev'', ''libswscale-dev'', ''libv4l-dev'',
                         ''libatlas-base-dev'', ''gfortran'', ''python-dev'',
                         ''python-numpy'', ''python3-dev'', ''python3-numpy'']]))"
proof -
  let ?a = "foldl take_action (default_args w) opts"
  let ?U = "Exec [''sudo'', ''apt-get'', ''update'']"
  have p: "prereqs ?a = (Opt_prereqs \<notin> set opts)"
    by (simp add: foldl_take_action default_args_def)
  have 1: "parse_command_line_args w (Options opts) =
     Inr \<lparr>tag = last (''3.3.1'' # [v. Opt_tag v \<leftarrow> opts]),
          force = (Opt_force \<in> set opts),
          build_dir = last (getcwd w # [v. Opt_build_dir v \<leftarrow> opts]),
          prereqs = (Opt_prereqs \<notin> set opts),
          build_options_file = last ('''' # [v. Opt_build_options_file v \<leftarrow> opts])\<rparr>"
    by (simp add: foldl_take_action default_args_def)
  have m: "program w (Options opts) = main_block w ?a []"
    by (simp add: program_def)
  have io: "\<exists>es. snd (install_opencv w ?a t) = t @ es \<and> (\<forall>e \<in> set es. e \<noteq> ?U)" for t
    using install_opencv_no_update [of w ?a] by (simp add: emits_def)
  have 2: "(?U \<in> set (snd (program w (Options opts)))) = (Opt_prereqs \<notin> set opts)"
  proof (cases "Opt_prereqs \<in> set opts")
    case True
    then have "program w (Options opts) = install_opencv w ?a []"
      using p m by (simp add: main_block_eq)
    then show ?thesis using True io [of "[]"] by auto
  next
    case False
    obtain r t0 where ip: "install_prereqs w [] = (r, t0)" by (cases "install_prereqs w []")
    have u: "?U \<in> set t0"
      using install_prereqs_first [of w "[]"] ip by auto
    have "?U \<in> set (snd (main_block w ?a []))"
    proof (cases r)
      case None
      then show ?thesis using ip p False u io [of t0] by (auto simp: main_block_eq)
    next
      case (Some s)
      then show ?thesis using ip p False u by (simp add: main_block_eq)
    qed
    then show ?thesis using False m by simp
  qed
  have 3: "program w (Options opts) =
          install_opencv w ?a
            (if Opt_prereqs \<in> set opts then [] else snd (install_prereqs w []))"
    if "\<forall>t argv. launch_ok w t argv"
    using m p install_prereqs_ok [OF that, of "[]"] by (simp add: main_block_eq)
  show ?thesis
    using 1 2 3 install_prereqs_ok [of w "[]"] by auto
qed

theorem option_defaults_witness:
  "program (const_world (Some ''n'') True Created None) (Options [Opt_tag ''4.0.0'']) =
     (None,
      [Print ''Installing prerequisites...'',
       Print ''sudo apt-get update'',
       Exec [''sudo'', ''apt-get'', ''update''],
       Print ''sudo apt-get upgrade'',
       Exec [''sudo'', ''apt-get'', ''upgrade''],
       Print ''sudo apt-get install build-essential cmake git pkg-config libjpeg8-dev libjasper-dev libpng12-dev libgtk2.0-dev libavcodec-dev libavformat-dev libswscale-dev libv4l-dev libatlas-base-dev gfortran python-dev python-numpy python3-dev python3-numpy'',
       Exec [''sudo'', ''apt-get'', ''install'', ''build-essential'', ''cmake'',
             ''git'', ''pkg-config'', ''libjpeg8-dev'', ''libjasper-dev'',
             ''libpng12-dev'', ''libgtk2.0-dev'', ''libavcodec-dev'',
             ''libavformat-dev'', ''libswscale-dev'', ''libv4l-dev'',
             ''libatlas-base-dev'', ''gfortran'', ''python-dev'',
             ''python-numpy'', ''python3-dev'', ''python3-numpy''],
       Print (CHR 0x0A # ''Selected installation options: ''),
       Print ''tag: 4.0.0'',
       Print ''force: False'',
       Print ''build_dir: /home/user'',
       Print ''prereqs: True'',
       Print ''build_options_file: '',
       Print [CHR 0x0A],
       Input ''Proceed with the installation? '',
       Print ''Exiting.''])"
proof -
  let ?w = "const_world (Some ''n'') True Created None"
  have la: "\<forall>t argv. launch_ok ?w t argv"
    by (simp add: const_world_def)
  have c: "char_lower CHR ''n'' \<noteq> CHR ''y''" by (simp add: char_lower_y)
  have "program ?w (Options [Opt_tag ''4.0.0'']) =
          install_opencv ?w (foldl take_action (default_args ?w) [Opt_tag ''4.0.0''])
            [Print ''Installing prerequisites...'',
             Print ''sudo apt-get update'',
             Exec [''sudo'', ''apt-get'', ''update''],
             Print ''sudo apt-get upgrade'',
             Exec [''sudo'', ''apt-get'', ''upgrade''],
             Print ''sudo apt-get install build-essential cmake git pkg-config libjpeg8-dev libjasper-dev libpng12-dev libgtk2.0-dev libavcodec-dev libavformat-dev libswscale-dev libv4l-dev libatlas-base-dev gfortran python-dev python-numpy python3-dev python3-numpy'',
             Exec [''sudo'', ''apt-get'', ''install'', ''build-essential'', ''cmake'',
                   ''git'', ''pkg-config'', ''libjpeg8-dev'', ''libjasper-dev'',
                   ''libpng12-dev'', ''libgtk2.0-dev'', ''libavcodec-dev'',
                   ''libavformat-dev'', ''libswscale-dev'', ''libv4l-dev'',
                   ''libatlas-base-dev'', ''gfortran'', ''python-dev'',
                   ''python-numpy'', ''python3-dev'', ''python3-numpy'']]"
    using option_defaults [of ?w "[Opt_tag ''4.0.0'']"] la by simp
  then show ?thesis
    using c
    by (simp add: install_opencv_eq show_options_eq confirm_def Let_def default_args_def
          const_world_def str_bool_def)
qed

subsection \<open>The end-to-end scenario\<close>

lemma scenario_main_block:
  "main_block w scenario_args [] = stages w scenario_args (snd (show_options scenario_args []))"
proof -
  have "force scenario_args" and "\<not> prereqs scenario_args"
    by (simp_all add: scenario_args_def)
  then show ?thesis
    by (simp add: main_block_eq install_opencv_eq)
qed

text \<open>
  C1, as amended. For the tag \<open>4.0.0\<close>, forcing, the build directory \<open>/tmp/x\<close>, no
  build-options file and no prerequisite installation: when every directory change
  succeeds, the build directory is created or is there already, and every command can be
  started, the program ends normally, the command lines it prints and runs are the
  clone, the checkout of \<open>tags/4.0.0\<close>, the generator invocation with the seven default
  flags in their built-in order, \<open>make -j 3\<close>, \<open>sudo make install\<close> and \<open>sudo ldconfig\<close>,
  in this order, and no prompt is shown.
\<close>

theorem end_to_end_commands:
  assumes cd: "\<forall>t p. chdir_ok w t p"
    and mk: "\<forall>t p. makedirs_result w t p \<noteq> Other_error"
    and la: "\<forall>t argv. launch_ok w t argv"
  shows "fst (main_block w scenario_args []) = None
       \<and> command_lines (snd (main_block w scenario_args [])) =
           [''git clone https://github.com/Itseez/opencv.git'',
            ''git checkout tags/4.0.0'',
            ''cmake -D CMAKE_BUILD_TYPE=RELEASE -D CMAKE_INSTALL_PREFIX=/usr/local -D INSTALL_C_EXAMPLES=OFF -D INSTALL_PYTHON_EXAMPLES=OFF -D BUILD_OPENCV_PYTHON2=ON -D PYTHON2_INCLUDE_DIR=/usr/include/python2.7 -D BUILD_EXAMPLES=OFF  ..'',
            ''make -j 3'',
            ''sudo make install'',
            ''sudo ldconfig'']
       \<and> prompts (snd (main_block w scenario_args [])) = []"
proof -
  have ld: "\<forall>t. load_build_options w scenario_args t = Inr (Dict DEFAULT_BUILD_OPTIONS)"
    by (simp add: load_no_file os_path_exists_def scenario_args_def)
  show ?thesis
    unfolding scenario_main_block stages_ok [OF cd la mk ld] show_options_eq cmake_call_default
    by (simp add: DEFAULT_BUILD_OPTIONS_def scenario_args_def)
qed

theorem end_to_end_commands_witness:
  "(\<forall>t p. chdir_ok (const_world None True Created None) t p)
   \<and> (\<forall>t p. makedirs_result (const_world None True Created None) t p \<noteq> Other_error)
   \<and> (\<forall>t argv. launch_ok (const_world None True Created None) t argv)
   \<and> fst (main_block (const_world None True Created None) scenario_args []) = None
   \<and> command_lines (snd (main_block (const_world None True Created None) scenario_args [])) =
         [''git clone https://github.com/Itseez/opencv.git'',
          ''git checkout tags/4.0.0'',
          ''cmake -D CMAKE_BUILD_TYPE=RELEASE -D CMAKE_INSTALL_PREFIX=/usr/local -D INSTALL_C_EXAMPLES=OFF -D INSTALL_PYTHON_EXAMPLES=OFF -D BUILD_OPENCV_PYTHON2=ON -D PYTHON2_INCLUDE_DIR=/usr/include/python2.7 -D BUILD_EXAMPLES=OFF  ..'',
          ''make -j 3'',
          ''sudo make install'',
          ''sudo ldconfig'']
   \<and> prompts (snd (main_block (const_world None True Created None) scenario_args [])) = []"
proof -
  have cd: "\<forall>t p. chdir_ok (const_world None True Created None) t p"
    by (simp add: const_world_def)
  have mk: "\<forall>t p. makedirs_result (const_world None True Created None) t p \<noteq> Other_error"
    by (simp add: const_world_def)
  have la: "\<forall>t argv. launch_ok (const_world None True Created None) t argv"
    by (simp add: const_world_def)
  show ?thesis
    using cd mk la end_to_end_commands [OF cd mk la] by blast
qed

text \<open>
  C1 as stated does not hold: it asks only for the directory changes to succeed. In a
  world where they all do but \<open>os.makedirs\<close> fails with an error other than "already
  exists", the program stops after the checkout and prints no generator, build or install
  command. And on a machine without \<open>git\<close>, where every directory can be entered and
  created, the program ends in an uncaught exception after printing the clone line.
\<close>

theorem end_to_end_counterexample:
  "main_block (const_world None True Other_error None) scenario_args [] =
     (Some SysExit,
      snd (show_options scenario_args [])
      @ [Print ''Downloading source...'',
         Chdir ''/tmp/x'',
         Print ''git clone https://github.com/Itseez/opencv.git'',
         Exec [''git'', ''clone'', ''https://github.com/Itseez/opencv.git''],
         Chdir ''/tmp/x/opencv'',
         Print ''git checkout tags/4.0.0'',
         Exec [''git'', ''checkout'', ''tags/4.0.0''],
         Chdir ''/tmp/x'',
         Makedirs ''/tmp/x/opencv/build'',
         Print ''ERROR: Couldn't create the build directory. Exiting.'',
         Print_traceback])
   \<and> main_block no_git_world scenario_args [] =
     (Some (Uncaught OSError),
      snd (show_options scenario_args [])
      @ [Print ''Downloading source...'',
         Chdir ''/tmp/x'',
         Print ''git clone https://github.com/Itseez/opencv.git'',
         Exec [''git'', ''clone'', ''https://github.com/Itseez/opencv.git'']])"
proof -
  let ?w = "const_world None True Other_error None"
  have cd: "\<forall>t p. chdir_ok ?w t p" and la: "\<forall>t argv. launch_ok ?w t argv"
    by (simp_all add: const_world_def)
  have mk: "\<And>t p. makedirs_result ?w t p = Other_error"
    by (simp add: const_world_def)
  have d: "make_dirs w scenario_args =
             \<lparr>dirs_root = ''/tmp/x'', dirs_opencv = ''/tmp/x/opencv'',
              dirs_build = ''/tmp/x/opencv/build''\<rparr>"
    if "realpath w = (\<lambda>p. p)" for w
    using that by (simp add: make_dirs_def scenario_args_def os_path_join_def)
  have r: "realpath ?w = (\<lambda>p. p)" "realpath no_git_world = (\<lambda>p. p)"
    by (simp_all add: const_world_def no_git_world_def)
  have t: "tag scenario_args = ''4.0.0''"
    by (simp add: scenario_args_def)
  have c: "split ''git checkout tags/4.0.0'' = [''git'', ''checkout'', ''tags/4.0.0'']"
    by (simp add: split_def is_space_def)
  have 1: "stages ?w scenario_args t0 =
     (Some SysExit,
      t0 @ [Print ''Downloading source...'',
         Chdir ''/tmp/x'',
         Print ''git clone https://github.com/Itseez/opencv.git'',
         Exec [''git'', ''clone'', ''https://github.com/Itseez/opencv.git''],
         Chdir ''/tmp/x/opencv'',
         Print ''git checkout tags/4.0.0'',
         Exec [''git'', ''checkout'', ''tags/4.0.0''],
         Chdir ''/tmp/x'',
         Makedirs ''/tmp/x/opencv/build'',
         Print ''ERROR: Couldn't create the build directory. Exiting.'',
         Print_traceback])" for t0
    by (simp add: stages_def Let_def d [OF r(1)] download_source_ok [OF cd la] configure_build_def
          create_build_dir_fails [OF mk] t split_clone c)
  have g: "\<not> launch_ok no_git_world t' [''git'', ''clone'', ''https://github.com/Itseez/opencv.git'']"
    "chdir_ok no_git_world t' p" for t' p
    by (simp_all add: no_git_world_def const_world_def)
  have 2: "stages no_git_world scenario_args t0 =
     (Some (Uncaught OSError),
      t0 @ [Print ''Downloading source...'',
         Chdir ''/tmp/x'',
         Print ''git clone https://github.com/Itseez/opencv.git'',
         Exec [''git'', ''clone'', ''https://github.com/Itseez/opencv.git'']])" for t0
    by (simp add: stages_def Let_def d [OF r(2)] download_source_def py_print_def chdir_ok_eq g
          call_eq split_clone)
  show ?thesis
    by (simp add: scenario_main_block 1 2)
qed

subsection \<open>The build configurer\<close>

text \<open>
  C5. When the build-options file does not exist (the empty path never does), or exists
  and holds an empty mapping, the options in use are the built-in defaults: seven
  entries, and the generator is invoked with all seven flags.
\<close>

theorem default_options_fallback:
  assumes mk: "makedirs_result w t (dirs_build d) \<noteq> Other_error"
    and cd: "chdir_ok w (t @ [Makedirs (dirs_build d)]) (dirs_build d)"
    and nf: "\<not> os_path_exists w (t @ [Makedirs (dirs_build d), Chdir (dirs_build d)])
                 (build_options_file a)
             \<or> (\<exists>v. json_load w (t @ [Makedirs (dirs_build d), Chdir (dirs_build d)])
                      (build_options_file a) = Loaded v (Dict []))"
  shows "load_build_options w a (t @ [Makedirs (dirs_build d), Chdir (dirs_build d)]) =
           Inr (Dict DEFAULT_BUILD_OPTIONS)
       \<and> length DEFAULT_BUILD_OPTIONS = 7
       \<and> configure_build w a d t =
           (if launch_ok w
                 (t @ [Makedirs (dirs_build d), Chdir (dirs_build d),
                       Print ''Building OpenCV with the following options:'']
                    @ map (\<lambda>(arg, val). Print (arg @ '': '' @ val)) DEFAULT_BUILD_OPTIONS
                    @ [Print [CHR 0x0A], Print (cmake_call DEFAULT_BUILD_OPTIONS)])
                 (split (cmake_call DEFAULT_BUILD_OPTIONS))
            then None else Some (Uncaught OSError),
            t @ [Makedirs (dirs_build d), Chdir (dirs_build d),
                 Print ''Building OpenCV with the following options:'']
              @ map (\<lambda>(arg, val). Print (arg @ '': '' @ val)) DEFAULT_BUILD_OPTIONS
              @ [Print [CHR 0x0A], Print (cmake_call DEFAULT_BUILD_OPTIONS),
                 Exec (split (cmake_call DEFAULT_BUILD_OPTIONS))])
       \<and> cmake_call DEFAULT_BUILD_OPTIONS =
           ''cmake -D CMAKE_BUILD_TYPE=RELEASE -D CMAKE_INSTALL_PREFIX=/usr/local -D INSTALL_C_EXAMPLES=OFF -D INSTALL_PYTHON_EXAMPLES=OFF -D BUILD_OPENCV_PYTHON2=ON -D PYTHON2_INCLUDE_DIR=/usr/include/python2.7 -D BUILD_EXAMPLES=OFF  ..''
       \<and> \<not> os_path_exists w t []"
proof -
  have ld: "load_build_options w a (t @ [Makedirs (dirs_build d), Chdir (dirs_build d)]) =
              Inr (Dict DEFAULT_BUILD_OPTIONS)"
    using nf load_no_file load_empty_mapping by blast
  have n: "length DEFAULT_BUILD_OPTIONS = 7"
    by (simp add: DEFAULT_BUILD_OPTIONS_def)
  have e: "\<not> os_path_exists w t []"
    by (simp add: os_path_exists_def)
  show ?thesis
    using ld n e cmake_call_default
    unfolding configure_build_ok [OF mk cd ld] by simp
qed

theorem default_options_fallback_witness:
  "makedirs_result (const_world None True File_exists None) [] ''/tmp/x/opencv/build'' \<noteq> Other_error
   \<and> chdir_ok (const_world None True File_exists None) [Makedirs ''/tmp/x/opencv/build'']
        ''/tmp/x/opencv/build''
   \<and> \<not> os_path_exists (const_world None True File_exists None)
          [Makedirs ''/tmp/x/opencv/build'', Chdir ''/tmp/x/opencv/build''] ''options.json''
   \<and> commands (snd (configure_build (const_world None True File_exists None)
          (scenario_args\<lparr>build_options_file := ''options.json''\<rparr>)
          (make_dirs (const_world None True File_exists None) scenario_args) [])) =
       [[''cmake'', ''-D'', ''CMAKE_BUILD_TYPE=RELEASE'', ''-D'',
         ''CMAKE_INSTALL_PREFIX=/usr/local'', ''-D'', ''INSTALL_C_EXAMPLES=OFF'', ''-D'',
         ''INSTALL_PYTHON_EXAMPLES=OFF'', ''-D'', ''BUILD_OPENCV_PYTHON2=ON'', ''-D'',
         ''PYTHON2_INCLUDE_DIR=/usr/include/python2.7'', ''-D'', ''BUILD_EXAMPLES=OFF'',
         ''..'']]"
proof -
  let ?w = "const_world None True File_exists None"
  let ?a = "scenario_args\<lparr>build_options_file := ''options.json''\<rparr>"
  let ?d = "make_dirs ?w scenario_args"
  have b: "dirs_build ?d = ''/tmp/x/opencv/build''"
    by (simp add: make_dirs_def const_world_def scenario_args_def os_path_join_def)
  have mk: "makedirs_result ?w [] (dirs_build ?d) \<noteq> Other_error"
    by (simp add: const_world_def)
  have cd: "chdir_ok ?w ([] @ [Makedirs (dirs_build ?d)]) (dirs_build ?d)"
    by (simp add: const_world_def)
  have nf: "\<not> os_path_exists ?w ([] @ [Makedirs (dirs_build ?d), Chdir (dirs_build ?d)])
                 (build_options_file ?a)
             \<or> (\<exists>v. json_load ?w ([] @ [Makedirs (dirs_build ?d), Chdir (dirs_build ?d)])
                 (build_options_file ?a) = Loaded v (Dict []))"
    by (simp add: const_world_def os_path_exists_def)
  have s: "split ''cmake -D CMAKE_BUILD_TYPE=RELEASE -D CMAKE_INSTALL_PREFIX=/usr/local -D INSTALL_C_EXAMPLES=OFF -D INSTALL_PYTHON_EXAMPLES=OFF -D BUILD_OPENCV_PYTHON2=ON -D PYTHON2_INCLUDE_DIR=/usr/include/python2.7 -D BUILD_EXAMPLES=OFF  ..'' =
       [''cmake'', ''-D'', ''CMAKE_BUILD_TYPE=RELEASE'', ''-D'',
         ''CMAKE_INSTALL_PREFIX=/usr/local'', ''-D'', ''INSTALL_C_EXAMPLES=OFF'', ''-D'',
         ''INSTALL_PYTHON_EXAMPLES=OFF'', ''-D'', ''BUILD_OPENCV_PYTHON2=ON'', ''-D'',
         ''PYTHON2_INCLUDE_DIR=/usr/include/python2.7'', ''-D'', ''BUILD_EXAMPLES=OFF'',
         ''..'']"
    by (simp add: split_def is_space_def)
  have c: "snd (configure_build ?w ?a ?d []) =
            [] @ [Makedirs (dirs_build ?d), Chdir (dirs_build ?d),
                 Print ''Building OpenCV with the following options:'']
              @ map (\<lambda>(arg, val). Print (arg @ '': '' @ val)) DEFAULT_BUILD_OPTIONS
              @ [Print [CHR 0x0A], Print (cmake_call DEFAULT_BUILD_OPTIONS),
                 Exec (split (cmake_call DEFAULT_BUILD_OPTIONS))]"
    using default_options_fallback [OF mk cd nf] by (metis snd_conv)
  have "commands (snd (configure_build ?w ?a ?d [])) = [split (cmake_call DEFAULT_BUILD_OPTIONS)]"
    unfolding c by (simp add: DEFAULT_BUILD_OPTIONS_def)
  then show ?thesis
    using mk cd nf b s by (simp add: cmake_call_default const_world_def os_path_exists_def)
qed

lemma main_block_forced:
  "force a \<Longrightarrow>
   main_block w a [] =
     (case (if prereqs a then install_prereqs w [] else (None, [])) of
        (None, t0) \<Rightarrow> stages w a (snd (show_options a t0))
      | (Some s, t0) \<Rightarrow> (Some s, t0))"
  by (auto simp: main_block_eq install_opencv_eq split: prod.splits option.splits)




subsection \<open>The directory set\<close>

lemma make_dirs_build: "dirs_build (make_dirs w a) = dirs_opencv (make_dirs w a) @ ''/build''"
  by (simp add: make_dirs_def Let_def os_path_join_def)

lemma paths_of_emitted:
  "\<forall>e \<in> set es. (case e of Chdir p \<Rightarrow> p \<in> S | Makedirs p \<Rightarrow> p \<in> S | _ \<Rightarrow> True) \<Longrightarrow>
   set (paths es) \<subseteq> S"
  by (induction es rule: paths.induct) auto

lemma paths_stages:
  "set (paths (snd (stages w a t))) \<subseteq>
     set (paths t) \<union> {dirs_root (make_dirs w a), dirs_opencv (make_dirs w a), dirs_build (make_dirs w a)}"
proof -
  let ?S = "{dirs_root (make_dirs w a), dirs_opencv (make_dirs w a), dirs_build (make_dirs w a)}"
  let ?P = "\<lambda>e. case e of Chdir p \<Rightarrow> p \<in> ?S | Makedirs p \<Rightarrow> p \<in> ?S | _ \<Rightarrow> True"
  have "emits ?P (stages w a)"
    by (rule emits_stages) simp_all
  then obtain es where es: "snd (stages w a t) = t @ es" "\<forall>e \<in> set es. ?P e"
    by (metis emits_def)
  have "set (paths es) \<subseteq> ?S"
    using es(2) by (rule paths_of_emitted)
  then show ?thesis
    using es(1) by (auto simp: paths_append)
qed

text \<open>
  C7, as amended. The root is the canonical form of the build directory; the source
  directory is \<open>os.path.join(root, "opencv")\<close>, which is the root followed by
  \<open>/opencv\<close> unless the root is empty or ends in a slash, where no slash is added; the
  build directory is the source directory followed by \<open>/build\<close>. The three are computed
  once, and every directory that a later stage enters or creates is one of them.
\<close>

theorem directory_set:
  "dirs_root (make_dirs w a) = realpath w (build_dir a)
   \<and> dirs_opencv (make_dirs w a) =
       (if dirs_root (make_dirs w a) = [] \<or> last (dirs_root (make_dirs w a)) = CHR ''/''
        then dirs_root (make_dirs w a) @ ''opencv''
        else dirs_root (make_dirs w a) @ ''/opencv'')
   \<and> dirs_build (make_dirs w a) = dirs_opencv (make_dirs w a) @ ''/build''
   \<and> set (paths (snd (stages w a []))) \<subseteq>
       {dirs_root (make_dirs w a), dirs_opencv (make_dirs w a), dirs_build (make_dirs w a)}"
  using paths_stages [of w a "[]"] make_dirs_build [of w a]
  by (simp add: make_dirs_def Let_def os_path_join_def)

text \<open>
  C7 as stated does not hold for the file-system root: with the build directory \<open>/\<close>
  the source directory is \<open>/opencv\<close>, not \<open>//opencv\<close>.
\<close>

theorem directory_set_counterexample:
  "dirs_root (make_dirs (const_world None True Created None) (scenario_args\<lparr>build_dir := ''/''\<rparr>)) = ''/''
   \<and> dirs_opencv (make_dirs (const_world None True Created None) (scenario_args\<lparr>build_dir := ''/''\<rparr>)) = ''/opencv''
   \<and> dirs_opencv (make_dirs (const_world None True Created None) (scenario_args\<lparr>build_dir := ''/''\<rparr>))
       \<noteq> dirs_root (make_dirs (const_world None True Created None) (scenario_args\<lparr>build_dir := ''/''\<rparr>)) @ ''/opencv''"
  by (simp add: make_dirs_def const_world_def scenario_args_def os_path_join_def)

subsection \<open>A root directory that cannot be entered\<close>

lemma stages_root_missing:
  assumes "\<not> chdir_ok w (t @ [Print ''Downloading source...'']) (realpath w (build_dir a))"
  shows "stages w a t =
     (Some SysExit,
      t @ [Print ''Downloading source...'',
           Print (''ERROR: Couldn't chdir into '' @ realpath w (build_dir a) @ ''. Exiting.''),
           Print_traceback])"
  using assms
  by (simp add: stages_def Let_def download_source_def py_print_def chdir_def make_dirs_def)

text \<open>
  C8. When the root directory cannot be entered, the stages end at once by \<open>sys.exit\<close>
  after the diagnostic; over the whole run the only commands are those of the
  prerequisite installer (if it is enabled), which runs before: no clone, checkout,
  generator, build or install command is printed or run. The forced program ends by
  that \<open>sys.exit\<close>, unless the prerequisite installer has ended it before.
\<close>

theorem missing_root_runs_nothing:
  assumes nr: "\<forall>t. \<not> chdir_ok w t (realpath w (build_dir a))"
  shows "stages w a t =
           (Some SysExit,
            t @ [Print ''Downloading source...'',
                 Print (''ERROR: Couldn't chdir into '' @ realpath w (build_dir a) @ ''. Exiting.''),
                 Print_traceback])
       \<and> commands (snd (main_block w a [])) =
           (if prereqs a then commands (snd (install_prereqs w [])) else [])
       \<and> (force a \<longrightarrow>
            fst (main_block w a []) =
              (if prereqs a \<and> fst (install_prereqs w []) \<noteq> None
               then fst (install_prereqs w []) else Some SysExit))"
proof -
  have st: "stages w a t =
           (Some SysExit,
            t @ [Print ''Downloading source...'',
                 Print (''ERROR: Couldn't chdir into '' @ realpath w (build_dir a) @ ''. Exiting.''),
                 Print_traceback])" for t
    using nr by (simp add: stages_root_missing)
  have c: "commands (snd (confirm w (stages w a) t)) = commands t" for t
    by (auto simp: confirm_def Let_def st commands_append split: option.splits list.splits)
  have s: "commands (snd (stages w a t)) = commands t" for t
    by (simp add: st commands_append)
  have i: "commands (snd (install_opencv w a t)) = commands t" for t
    by (simp add: install_opencv_eq c s commands_show_options)
  have f: "fst (install_opencv w a t) = Some SysExit" if "force a" for t
    using that by (simp add: install_opencv_eq st)
  obtain r t0 where ip: "install_prereqs w [] = (r, t0)" by (cases "install_prereqs w []")
  have 2: "commands (snd (main_block w a [])) =
           (if prereqs a then commands (snd (install_prereqs w [])) else [])"
    using ip i by (cases r) (simp_all add: main_block_eq)
  have 3: "fst (main_block w a []) =
              (if prereqs a \<and> fst (install_prereqs w []) \<noteq> None
               then fst (install_prereqs w []) else Some SysExit)"
    if "force a"
    using ip f [OF that] by (cases r) (simp_all add: main_block_eq)
  show ?thesis
    using st [of t] 2 3 by simp
qed

theorem missing_root_runs_nothing_witness:
  "(\<forall>t. \<not> chdir_ok (const_world None False Created None) t
            (realpath (const_world None False Created None) (build_dir scenario_args)))
   \<and> force scenario_args
   \<and> main_block (const_world None False Created None) scenario_args [] =
       (Some SysExit,
        snd (show_options scenario_args [])
        @ [Print ''Downloading source...'',
           Print ''ERROR: Couldn't chdir into /tmp/x. Exiting.'',
           Print_traceback])
   \<and> commands (snd (main_block (const_world None False Created None) scenario_args [])) = []"
proof -
  let ?w = "const_world None False Created None"
  have nr: "\<forall>t. \<not> chdir_ok ?w t (realpath ?w (build_dir scenario_args))"
    by (simp add: const_world_def)
  have f: "force scenario_args" "\<not> prereqs scenario_args"
    by (simp_all add: scenario_args_def)
  have r: "realpath ?w (build_dir scenario_args) = ''/tmp/x''"
    by (simp add: const_world_def scenario_args_def)
  show ?thesis
    using nr f r missing_root_runs_nothing [OF nr, of "snd (show_options scenario_args [])"]
    by (simp add: scenario_main_block commands_append commands_show_options)
qed

subsection \<open>The confirmation gate\<close>

lemma spec_gate_of_first_char:
  assumes "char_lower c = CHR ''y''"
  shows "spec_gate_proceeds (c # cs)"
proof -
  have ns: "\<not> is_space c"
    using assms by (auto simp: char_lower_y is_space_def)
  have "dropWhile is_space (rev cs @ [c]) = dropWhile is_space (rev cs) @ [c]"
    using ns by (simp add: dropWhile_append3)
  then have "strip (c # cs) = c # rev (dropWhile is_space (rev cs))"
    using ns by (simp add: strip_def)
  then show ?thesis
    using assms by (simp add: spec_gate_proceeds_def)
qed

lemma install_opencv_gate:
  assumes "\<not> force a" and "stdin_line w = Some line"
  shows "install_opencv w a t =
     (if line \<noteq> [] \<and> char_lower (hd line) = CHR ''y''
      then stages w a (snd (show_options a t) @ [Input ''Proceed with the installation? ''])
      else (None,
            snd (show_options a t) @ [Input ''Proceed with the installation? '']
            @ (if line = [] then [Print ''Exiting (exception)'', Print_traceback]
               else [Print ''Exiting.''])))"
  using assms
  by (cases line) (simp_all add: install_opencv_eq confirm_def Let_def)

text \<open>
  C2, as amended. Without forcing, when a line is read, the gate goes on to the stages
  exactly when the line is not empty and its first character, as typed and lower-cased,
  is \<open>y\<close>. For every other line, the empty one included, \<open>install_opencv\<close> returns after
  one message: no directory is created, no command is run, and the exit status is 0.
\<close>

theorem gate_decision:
  assumes nf: "\<not> force a" and ln: "stdin_line w = Some line"
  shows "install_opencv w a t =
     (if line \<noteq> [] \<and> char_lower (hd line) = CHR ''y''
      then stages w a (snd (show_options a t) @ [Input ''Proceed with the installation? ''])
      else (None,
            snd (show_options a t) @ [Input ''Proceed with the installation? '']
            @ (if line = [] then [Print ''Exiting (exception)'', Print_traceback]
               else [Print ''Exiting.''])))
   \<and> (line = [] \<or> char_lower (hd line) \<noteq> CHR ''y'' \<longrightarrow>
        exit_status (fst (install_opencv w a t)) = 0
        \<and> mutations (snd (install_opencv w a t)) = mutations t)"
  using install_opencv_gate [OF nf ln, of t]
  by (auto simp: mutations_append mutations_show_options)

theorem gate_decision_witness:
  "\<not> force (scenario_args\<lparr>force := False\<rparr>)
   \<and> stdin_line (const_world (Some ''No'') True Created None) = Some ''No''
   \<and> install_opencv (const_world (Some ''No'') True Created None)
        (scenario_args\<lparr>force := False\<rparr>) [] =
       (None,
        snd (show_options (scenario_args\<lparr>force := False\<rparr>) [])
        @ [Input ''Proceed with the installation? '', Print ''Exiting.''])
   \<and> exit_status (fst (install_opencv (const_world (Some ''No'') True Created None)
        (scenario_args\<lparr>force := False\<rparr>) [])) = 0"
proof -
  let ?w = "const_world (Some ''No'') True Created None"
  let ?a = "scenario_args\<lparr>force := False\<rparr>"
  have nf: "\<not> force ?a" by simp
  have ln: "stdin_line ?w = Some ''No''" by (simp add: const_world_def)
  have c: "char_lower CHR ''N'' \<noteq> CHR ''y''" by (simp add: char_lower_y)
  show ?thesis
    using nf ln c gate_decision [OF nf ln, of "[]"] by simp
qed

text \<open>
  C2 as stated does not hold. The line is not trimmed: on the line \<open>" y"\<close>, whose first
  character after trimming is \<open>y\<close>, the program prints \<open>Exiting.\<close> and runs nothing. And a
  failed read is not caught: the program ends in an uncaught exception, with status 1.
\<close>

theorem gate_decision_counterexample:
  "spec_gate_proceeds '' y''
   \<and> program (const_world (Some '' y'') True Created None) (Options [Opt_prereqs]) =
       (None,
        snd (show_options (default_args (const_world (Some '' y'') True Created None)
                             \<lparr>prereqs := False\<rparr>) [])
        @ [Input ''Proceed with the installation? '', Print ''Exiting.''])
   \<and> fst (program (const_world None True Created None) (Options [Opt_prereqs])) =
       Some (Uncaught EOFError)
   \<and> exit_status (fst (program (const_world None True Created None) (Options [Opt_prereqs]))) = 1"
proof -
  have sp: "is_space CHR '' ''" and ny: "\<not> is_space CHR ''y''"
    by (simp_all add: is_space_def)
  have s: "spec_gate_proceeds '' y''"
    using sp ny by (simp add: spec_gate_proceeds_def strip_def char_lower_y)
  have c: "char_lower CHR '' '' \<noteq> CHR ''y''" by (simp add: char_lower_y)
  have p: "program w (Options [Opt_prereqs]) =
             install_opencv w (default_args w\<lparr>prereqs := False\<rparr>) []" for w
    by (simp add: program_def main_block_eq)
  have f: "\<not> force (default_args w\<lparr>prereqs := False\<rparr>)" for w
    by (simp add: default_args_def)
  have 1: "program (const_world (Some '' y'') True Created None) (Options [Opt_prereqs]) =
       (None,
        snd (show_options (default_args (const_world (Some '' y'') True Created None)
                             \<lparr>prereqs := False\<rparr>) [])
        @ [Input ''Proceed with the installation? '', Print ''Exiting.''])"
    unfolding p using c
    by (simp add: install_opencv_gate [OF f, of _ "'' y''"] const_world_def)
  have 2: "fst (program (const_world None True Created None) (Options [Opt_prereqs])) =
             Some (Uncaught EOFError)"
    unfolding p using f [of "const_world None True Created None"]
    by (simp add: install_opencv_eq confirm_def Let_def const_world_def)
  show ?thesis using s 1 2 by simp
qed

text \<open>
  C3, as amended. Without forcing, for every line whose first character after trimming,
  lower-cased, is not \<open>y\<close>, the program ends normally after the gate's message and no
  stage runs. The effects before the gate are those of the prerequisite installer when
  it is enabled (three package-manager commands) and none otherwise; nothing is changed
  after the gate. (Should the prerequisite installer end the program, the gate is not
  reached at all.)
\<close>

theorem gate_rejection_runs_no_stage:
  assumes nf: "\<not> force a" and ln: "stdin_line w = Some line"
    and rj: "\<not> spec_gate_proceeds line"
  shows "main_block w a [] =
           (if prereqs a \<and> fst (install_prereqs w []) \<noteq> None then install_prereqs w []
            else (None,
                  (if prereqs a then snd (install_prereqs w []) else [])
                  @ snd (show_options a [])
                  @ [Input ''Proceed with the installation? '']
                  @ (if line = [] then [Print ''Exiting (exception)'', Print_traceback]
                     else [Print ''Exiting.''])))
       \<and> mutations (snd (main_block w a [])) =
           (if prereqs a then mutations (snd (install_prereqs w [])) else [])"
proof -
  have r: "line = [] \<or> char_lower (hd line) \<noteq> CHR ''y''"
    using rj spec_gate_of_first_char by (cases line) auto
  have i: "install_opencv w a t =
             (None,
              t @ snd (show_options a [])
              @ [Input ''Proceed with the installation? '']
              @ (if line = [] then [Print ''Exiting (exception)'', Print_traceback]
                 else [Print ''Exiting.'']))" for t
    using r by (auto simp: install_opencv_gate [OF nf ln] show_options_eq)
  obtain s t0 where ip: "install_prereqs w [] = (s, t0)" by (cases "install_prereqs w []")
  have m: "main_block w a [] =
           (if prereqs a \<and> fst (install_prereqs w []) \<noteq> None then install_prereqs w []
            else (None,
                  (if prereqs a then snd (install_prereqs w []) else [])
                  @ snd (show_options a [])
                  @ [Input ''Proceed with the installation? '']
                  @ (if line = [] then [Print ''Exiting (exception)'', Print_traceback]
                     else [Print ''Exiting.''])))"
    using ip by (cases s) (simp_all add: main_block_eq i)
  show ?thesis
    unfolding m by (simp add: mutations_append mutations_show_options)
qed

theorem gate_rejection_runs_no_stage_witness:
  "\<not> force (scenario_args\<lparr>force := False\<rparr>)
   \<and> stdin_line (const_world (Some '' no'') True Created None) = Some '' no''
   \<and> \<not> spec_gate_proceeds '' no''
   \<and> mutations (snd (main_block (const_world (Some '' no'') True Created None)
        (scenario_args\<lparr>force := False\<rparr>) [])) = []"
proof -
  let ?w = "const_world (Some '' no'') True Created None"
  let ?a = "scenario_args\<lparr>force := False\<rparr>"
  have nf: "\<not> force ?a" by simp
  have ln: "stdin_line ?w = Some '' no''" by (simp add: const_world_def)
  have sp: "is_space CHR '' ''" and nn: "\<not> is_space CHR ''n''" "\<not> is_space CHR ''o''"
    by (simp_all add: is_space_def)
  have c: "char_lower CHR ''n'' \<noteq> CHR ''y''" by (simp add: char_lower_y)
  have rj: "\<not> spec_gate_proceeds '' no''"
    using sp nn c by (simp add: spec_gate_proceeds_def strip_def)
  have p: "\<not> prereqs ?a" by (simp add: scenario_args_def)
  have "mutations (snd (main_block ?w ?a [])) = []"
    using p gate_rejection_runs_no_stage [OF nf ln rj, THEN conjunct2] by simp
  then show ?thesis
    using nf ln rj by simp
qed

text \<open>
  C3 as stated does not hold: with the default options the prerequisite installer runs
  before the gate. On the answer \<open>n\<close> the three package-manager commands have already
  been run when the prompt appears.
\<close>

theorem gate_rejection_counterexample:
  "\<not> spec_gate_proceeds ''n''
   \<and> program (const_world (Some ''n'') True Created None) (Options []) =
       (None,
        snd (install_prereqs (const_world (Some ''n'') True Created None) [])
        @ snd (show_options (default_args (const_world (Some ''n'') True Created None)) [])
        @ [Input ''Proceed with the installation? '', Print ''Exiting.''])
   \<and> mutations (snd (install_prereqs (const_world (Some ''n'') True Created None) [])) =
       [Exec [''sudo'', ''apt-get'', ''update''],
        Exec [''sudo'', ''apt-get'', ''upgrade''],
        Exec [''sudo'', ''apt-get'', ''install'', ''build-essential'', ''cmake'', ''git'',
              ''pkg-config'', ''libjpeg8-dev'', ''libjasper-dev'', ''libpng12-dev'',
              ''libgtk2.0-dev'', ''libavcodec-dev'', ''libavformat-dev'', ''libswscale-dev'',
              ''libv4l-dev'', ''libatlas-base-dev'', ''gfortran'', ''python-dev'',
              ''python-numpy'', ''python3-dev'', ''python3-numpy'']]"
proof -
  let ?w = "const_world (Some ''n'') True Created None"
  have nn: "\<not> is_space CHR ''n''" by (simp add: is_space_def)
  have c: "char_lower CHR ''n'' \<noteq> CHR ''y''" by (simp add: char_lower_y)
  have rj: "\<not> spec_gate_proceeds ''n''"
    using nn c by (simp add: spec_gate_proceeds_def strip_def)
  have la: "\<forall>t argv. launch_ok ?w t argv" by (simp add: const_world_def)
  have d: "\<not> force (default_args ?w)" "prereqs (default_args ?w)" "stdin_line ?w = Some ''n''"
    by (simp_all add: default_args_def const_world_def)
  have 1: "program ?w (Options []) =
       (None,
        snd (install_prereqs ?w []) @ snd (show_options (default_args ?w) [])
        @ [Input ''Proceed with the installation? '', Print ''Exiting.''])"
    using d c
    by (simp add: program_def main_block_eq install_prereqs_ok [OF la]
          install_opencv_gate [OF d(1) d(3)] show_options_eq)
  have 2: "mutations (snd (install_prereqs ?w [])) =
       [Exec [''sudo'', ''apt-get'', ''update''],
        Exec [''sudo'', ''apt-get'', ''upgrade''],
        Exec [''sudo'', ''apt-get'', ''install'', ''build-essential'', ''cmake'', ''git'',
              ''pkg-config'', ''libjpeg8-dev'', ''libjasper-dev'', ''libpng12-dev'',
              ''libgtk2.0-dev'', ''libavcodec-dev'', ''libavformat-dev'', ''libswscale-dev'',
              ''libv4l-dev'', ''libatlas-base-dev'', ''gfortran'', ''python-dev'',
              ''python-numpy'', ''python3-dev'', ''python3-numpy'']]"
    by (simp add: install_prereqs_ok [OF la])
  show ?thesis using rj 1 2 by simp
qed

subsection \<open>The two diagnosed exits\<close>

text \<open>
  C4, as amended. The stages are the fourteen statements of \<open>stage_steps\<close>, run one after
  the other. Whichever of the directory changes among them fails, after everything before
  it went through, the program prints the message naming the directory and the
  traceback and ends there by \<open>sys.exit()\<close>: nothing is run or undone afterwards, and
  the exit status is 0, since \<open>sys.exit\<close> is given no argument. A failure to create the
  build directory other than "already exists" ends the program in the same way, with
  its own message. The forced program without prerequisite installation is these stages,
  after the options are shown.
\<close>

theorem fatal_paths_exit_status:
  "stages w a t = seqs (stage_steps w a) t
   \<and> (\<forall>qs p rest t'.
        stage_steps w a = qs @ chdir w p # rest \<and> seqs qs t = (None, t')
        \<and> \<not> chdir_ok w t' p \<longrightarrow>
        stages w a t =
          (Some SysExit,
           t' @ [Print (''ERROR: Couldn't chdir into '' @ p @ ''. Exiting.''), Print_traceback])
        \<and> exit_status (fst (stages w a t)) = 0)
   \<and> (\<forall>qs p rest t'.
        stage_steps w a = qs @ create_build_dir w p # rest \<and> seqs qs t = (None, t')
        \<and> makedirs_result w t' p = Other_error \<longrightarrow>
        stages w a t =
          (Some SysExit,
           t' @ [Makedirs p, Print ''ERROR: Couldn't create the build directory. Exiting.'',
                 Print_traceback])
        \<and> exit_status (fst (stages w a t)) = 0)
   \<and> (force a \<and> \<not> prereqs a \<longrightarrow>
        main_block w a [] = stages w a (snd (show_options a [])))"
proof -
  have B: "stages w a t =
          (Some SysExit,
           t' @ [Print (''ERROR: Couldn't chdir into '' @ p @ ''. Exiting.''), Print_traceback])"
    if "stage_steps w a = qs @ chdir w p # rest" "seqs qs t = (None, t')" "\<not> chdir_ok w t' p"
    for qs p rest t'
    using that by (simp add: stages_flat seqs_append chdir_fails_eq)
  have C: "stages w a t =
          (Some SysExit,
           t' @ [Makedirs p, Print ''ERROR: Couldn't create the build directory. Exiting.'',
                 Print_traceback])"
    if "stage_steps w a = qs @ create_build_dir w p # rest" "seqs qs t = (None, t')"
      "makedirs_result w t' p = Other_error"
    for qs p rest t'
    using that by (simp add: stages_flat seqs_append create_build_dir_fails)
  have D: "main_block w a [] = stages w a (snd (show_options a []))"
    if "force a" "\<not> prereqs a"
    using that by (simp add: main_block_forced)
  show ?thesis
    using stages_flat [of w a t] B C D by (auto simp del: seqs.simps)
qed

theorem fatal_paths_exit_status_witness:
  "main_block no_clone_world scenario_args [] =
     (Some SysExit,
      snd (show_options scenario_args [])
      @ [Print ''Downloading source...'',
         Chdir ''/tmp/x'',
         Print ''git clone https://github.com/Itseez/opencv.git'',
         Exec [''git'', ''clone'', ''https://github.com/Itseez/opencv.git''],
         Print ''ERROR: Couldn't chdir into /tmp/x/opencv. Exiting.'',
         Print_traceback])
   \<and> exit_status (fst (main_block no_clone_world scenario_args [])) = 0
   \<and> main_block (const_world None True Other_error None) scenario_args [] =
     (Some SysExit,
      snd (show_options scenario_args [])
      @ [Print ''Downloading source...'',
         Chdir ''/tmp/x'',
         Print ''git clone https://github.com/Itseez/opencv.git'',
         Exec [''git'', ''clone'', ''https://github.com/Itseez/opencv.git''],
         Chdir ''/tmp/x/opencv'',
         Print ''git checkout tags/4.0.0'',
         Exec [''git'', ''checkout'', ''tags/4.0.0''],
         Chdir ''/tmp/x'',
         Makedirs ''/tmp/x/opencv/build'',
         Print ''ERROR: Couldn't create the build directory. Exiting.'',
         Print_traceback])
   \<and> exit_status (fst (main_block (const_world None True Other_error None) scenario_args [])) = 0"
proof -
  let ?t = "snd (show_options scenario_args [])"
  have f: "force scenario_args \<and> \<not> prereqs scenario_args"
    by (simp add: scenario_args_def)
  have tg: "tag scenario_args = ''4.0.0''"
    by (simp add: scenario_args_def)
  have ck: "split ''git checkout tags/4.0.0'' = [''git'', ''checkout'', ''tags/4.0.0'']"
    by (simp add: split_def is_space_def)
  have d: "make_dirs w scenario_args =
             \<lparr>dirs_root = ''/tmp/x'', dirs_opencv = ''/tmp/x/opencv'',
              dirs_build = ''/tmp/x/opencv/build''\<rparr>"
    if "realpath w = (\<lambda>p. p)" for w
    using that by (simp add: make_dirs_def scenario_args_def os_path_join_def)

  let ?w1 = "no_clone_world"
  let ?s1 = "stage_steps ?w1 scenario_args"
  have r1: "realpath ?w1 = (\<lambda>p. p)"
    by (simp add: no_clone_world_def const_world_def)
  have o1: "chdir_ok ?w1 t' ''/tmp/x''" "\<not> chdir_ok ?w1 t' ''/tmp/x/opencv''"
    "launch_ok ?w1 t' argv" for t' argv
    by (simp_all add: no_clone_world_def const_world_def)
  have l1: "?s1 = take 3 ?s1 @ chdir ?w1 ''/tmp/x/opencv'' # drop 4 ?s1"
    by (simp add: stage_steps_def Let_def d [OF r1])
  have q1: "seqs (take 3 ?s1) ?t =
              (None,
               ?t @ [Print ''Downloading source...'',
                     Chdir ''/tmp/x'',
                     Print ''git clone https://github.com/Itseez/opencv.git'',
                     Exec [''git'', ''clone'', ''https://github.com/Itseez/opencv.git'']])"
    by (simp add: stage_steps_def Let_def d [OF r1] py_print_def chdir_ok_eq o1 call_ok
          split_clone)
  have 1: "stages ?w1 scenario_args ?t =
     (Some SysExit,
      (?t @ [Print ''Downloading source...'',
         Chdir ''/tmp/x'',
         Print ''git clone https://github.com/Itseez/opencv.git'',
         Exec [''git'', ''clone'', ''https://github.com/Itseez/opencv.git'']])
      @ [Print (''ERROR: Couldn't chdir into '' @ ''/tmp/x/opencv'' @ ''. Exiting.''),
         Print_traceback])
     \<and> exit_status (fst (stages ?w1 scenario_args ?t)) = 0"
    using fatal_paths_exit_status [of ?w1 scenario_args ?t] l1 q1 o1(2) by blast
  have m1: "main_block ?w1 scenario_args [] = stages ?w1 scenario_args ?t"
    using fatal_paths_exit_status [of ?w1 scenario_args ?t] f by blast

  let ?w2 = "const_world None True Other_error None"
  let ?s2 = "stage_steps ?w2 scenario_args"
  have r2: "realpath ?w2 = (\<lambda>p. p)"
    by (simp add: const_world_def)
  have o2: "chdir_ok ?w2 t' p" "makedirs_result ?w2 t' p = Other_error"
    "launch_ok ?w2 t' argv" for t' p argv
    by (simp_all add: const_world_def)
  have l2: "?s2 = take 6 ?s2 @ create_build_dir ?w2 ''/tmp/x/opencv/build'' # drop 7 ?s2"
    by (simp add: stage_steps_def Let_def d [OF r2])
  have q2: "seqs (take 6 ?s2) ?t =
              (None,
               ?t @ [Print ''Downloading source...'',
                     Chdir ''/tmp/x'',
                     Print ''git clone https://github.com/Itseez/opencv.git'',
                     Exec [''git'', ''clone'', ''https://github.com/Itseez/opencv.git''],
                     Chdir ''/tmp/x/opencv'',
                     Print ''git checkout tags/4.0.0'',
                     Exec [''git'', ''checkout'', ''tags/4.0.0''],
                     Chdir ''/tmp/x''])"
    by (simp add: stage_steps_def Let_def d [OF r2] py_print_def chdir_ok_eq o2 call_ok
          split_clone tg ck)
  have 2: "stages ?w2 scenario_args ?t =
     (Some SysExit,
      (?t @ [Print ''Downloading source...'',
                     Chdir ''/tmp/x'',
                     Print ''git clone https://github.com/Itseez/opencv.git'',
                     Exec [''git'', ''clone'', ''https://github.com/Itseez/opencv.git''],
                     Chdir ''/tmp/x/opencv'',
                     Print ''git checkout tags/4.0.0'',
                     Exec [''git'', ''checkout'', ''tags/4.0.0''],
                     Chdir ''/tmp/x''])
      @ [Makedirs ''/tmp/x/opencv/build'',
         Print ''ERROR: Couldn't create the build directory. Exiting.'',
         Print_traceback])
     \<and> exit_status (fst (stages ?w2 scenario_args ?t)) = 0"
    using fatal_paths_exit_status [of ?w2 scenario_args ?t] l2 q2 o2(2) by blast
  have m2: "main_block ?w2 scenario_args [] = stages ?w2 scenario_args ?t"
    using fatal_paths_exit_status [of ?w2 scenario_args ?t] f by blast
  show ?thesis
    using 1 2 by (simp add: m1 m2)
qed

text \<open>
  C4 as stated does not hold. \<open>sys.exit()\<close> without an argument gives the exit status
  0: both when the root cannot be entered and when the build directory cannot be
  created, the program of the end-to-end scenario ends by \<open>sys.exit\<close> with status 0. And
  not every other way of ending has status 0: on a machine without \<open>git\<close> the same
  program ends in an uncaught exception with status 1, and a malformed command line
  makes the parser end the process with status 2.
\<close>

theorem fatal_paths_counterexample:
  "fst (main_block (const_world None False Created None) scenario_args []) = Some SysExit
   \<and> exit_status (fst (main_block (const_world None False Created None) scenario_args [])) = 0
   \<and> fst (main_block (const_world None True Other_error None) scenario_args []) = Some SysExit
   \<and> exit_status (fst (main_block (const_world None True Other_error None) scenario_args [])) = 0
   \<and> exit_status (fst (main_block no_git_world scenario_args [])) = 1
   \<and> exit_status (fst (program (const_world None True Created None) Malformed)) = 2"
proof -
  have nr: "\<not> chdir_ok (const_world None False Created None) t
                 (realpath (const_world None False Created None) (build_dir scenario_args))" for t
    by (simp add: const_world_def)
  have 1: "fst (main_block (const_world None False Created None) scenario_args []) = Some SysExit"
    by (simp add: scenario_main_block stages_root_missing [OF nr])
  have cd: "\<forall>t p. chdir_ok (const_world None True Other_error None) t p"
    and la: "\<forall>t argv. launch_ok (const_world None True Other_error None) t argv"
    by (simp_all add: const_world_def)
  have mk: "\<And>t p. makedirs_result (const_world None True Other_error None) t p = Other_error"
    by (simp add: const_world_def)
  have 2: "fst (main_block (const_world None True Other_error None) scenario_args []) = Some SysExit"
    by (simp add: scenario_main_block stages_def Let_def download_source_ok [OF cd la]
          configure_build_def create_build_dir_fails [OF mk])
  have g: "\<not> launch_ok no_git_world t' (split ''git clone https://github.com/Itseez/opencv.git'')"
    "chdir_ok no_git_world t' p" for t' p
    by (simp_all add: no_git_world_def const_world_def split_clone)
  have 3: "fst (main_block no_git_world scenario_args []) = Some (Uncaught OSError)"
    by (simp add: scenario_main_block stages_def Let_def download_source_def py_print_def
          chdir_ok_eq g call_eq)
  have 4: "fst (program (const_world None True Created None) Malformed) = Some (Parser_exit 2)"
    by (simp add: program_def)
  show ?thesis using 1 2 3 4 by simp
qed

subsection \<open>The generator invocation\<close>

lemma foldl_flags:
  "foldl (\<lambda>s (arg, val). s @ f arg val) acc kvs = acc @ concat (map (\<lambda>(arg, val). f arg val) kvs)"
  by (induction kvs arbitrary: acc) auto

lemma args_string_concat:
  "args_string kvs = concat (map (\<lambda>(arg, val). ''-D '' @ arg @ ''='' @ val @ '' '') kvs)"
  using foldl_flags [of "\<lambda>arg val. ''-D '' @ arg @ ''='' @ val @ '' ''" "[]" kvs]
  by (simp add: args_string_def)

lemma split_from_flag:
  assumes "\<forall>c \<in> set (arg @ val). \<not> is_space c"
  shows "split_from [] ((''-D '' @ arg @ ''='' @ val @ '' '') @ s) =
           ''-D'' # (arg @ ''='' @ val) # split_from [] s"
proof -
  have e: "\<not> is_space CHR ''=''" "\<not> is_space CHR ''-''" "\<not> is_space CHR ''D''"
    "is_space CHR '' ''"
    by (simp_all add: is_space_def)
  have w: "\<forall>c \<in> set (arg @ ''='' @ val). \<not> is_space c"
    using assms e by auto
  have "split_from [] ((''-D '' @ arg @ ''='' @ val @ '' '') @ s) =
          ''-D'' # split_from [] ((arg @ ''='' @ val) @ CHR '' '' # s)"
    using e by simp
  also have "\<dots> = ''-D'' # split_from (arg @ ''='' @ val) (CHR '' '' # s)"
    using split_from_word [OF w, of "[]"] by simp
  also have "\<dots> = ''-D'' # (arg @ ''='' @ val) # split_from [] s"
    using e by simp
  finally show ?thesis .
qed

lemma split_from_flags:
  assumes "\<forall>(arg, val) \<in> set kvs. \<forall>c \<in> set (arg @ val). \<not> is_space c"
  shows "split_from [] (concat (map (\<lambda>(arg, val). ''-D '' @ arg @ ''='' @ val @ '' '') kvs) @ s) =
           concat (map (\<lambda>(arg, val). [''-D'', arg @ ''='' @ val]) kvs) @ split_from [] s"
  using assms
proof (induction kvs)
  case Nil
  show ?case by simp
next
  case (Cons kv kvs)
  obtain arg val where kv: "kv = (arg, val)" by (cases kv)
  have a: "\<forall>c \<in> set (arg @ val). \<not> is_space c"
    using Cons.prems kv by auto
  have r: "\<forall>(arg, val) \<in> set kvs. \<forall>c \<in> set (arg @ val). \<not> is_space c"
    using Cons.prems by auto
  show ?case
    using split_from_flag [OF a] Cons.IH [OF r] kv by simp
qed

lemma split_cmake_call:
  assumes "\<forall>(arg, val) \<in> set kvs. \<forall>c \<in> set (arg @ val). \<not> is_space c"
  shows "split (cmake_call kvs) = spec_cmake_tokens kvs"
proof -
  have e: "is_space CHR '' ''" "\<not> is_space CHR ''.''"
    by (simp_all add: is_space_def)
  have "split (cmake_call kvs) =
          ''cmake'' # split_from []
             (concat (map (\<lambda>(arg, val). ''-D '' @ arg @ ''='' @ val @ '' '') kvs) @ '' ..'')"
    by (simp add: split_cmake args_string_concat)
  also have "\<dots> = ''cmake'' # concat (map (\<lambda>(arg, val). [''-D'', arg @ ''='' @ val]) kvs)
                      @ split_from [] '' ..''"
    using split_from_flags [OF assms] by simp
  also have "\<dots> = spec_cmake_tokens kvs"
    using e by (simp add: spec_cmake_tokens_def)
  finally show ?thesis .
qed

text \<open>
  C6, as amended. When the build directory is created and entered and the build-options
  file holds a non-empty mapping, the configurer shows that mapping and prints and runs
  one command line: \<open>cmake\<close>, a space, then for each entry in the mapping's order
  \<open>-D key=value\<close> and a space, then a space and the parent directory. The line is split
  at white space before it is run: when no key and no value contains white space, the
  argument vector is \<open>cmake\<close>, one pair of tokens \<open>-D\<close>, \<open>key=value\<close> per entry in order,
  and the parent directory.
\<close>

theorem cmake_invocation:
  assumes mk: "makedirs_result w t (dirs_build d) \<noteq> Other_error"
    and cd: "chdir_ok w (t @ [Makedirs (dirs_build d)]) (dirs_build d)"
    and ex: "os_path_exists w (t @ [Makedirs (dirs_build d), Chdir (dirs_build d)])
               (build_options_file a)"
    and ld: "json_load w (t @ [Makedirs (dirs_build d), Chdir (dirs_build d)])
               (build_options_file a) = Loaded v (Dict kvs)"
    and ne: "kvs \<noteq> []"
    and cmd: "command =
                ''cmake '' @ concat (map (\<lambda>(arg, val). ''-D '' @ arg @ ''='' @ val @ '' '') kvs)
                @ '' ..''"
  shows "configure_build w a d t =
           (if launch_ok w
                 (t @ [Makedirs (dirs_build d), Chdir (dirs_build d),
                       Print ''Building OpenCV with the following options:'']
                    @ map (\<lambda>(arg, val). Print (arg @ '': '' @ val)) kvs
                    @ [Print [CHR 0x0A], Print command])
                 (split command)
            then None else Some (Uncaught OSError),
            t @ [Makedirs (dirs_build d), Chdir (dirs_build d),
                 Print ''Building OpenCV with the following options:'']
              @ map (\<lambda>(arg, val). Print (arg @ '': '' @ val)) kvs
              @ [Print [CHR 0x0A], Print command, Exec (split command)])
       \<and> ((\<forall>(arg, val) \<in> set kvs. \<forall>c \<in> set (arg @ val). \<not> is_space c) \<longrightarrow>
            commands (snd (configure_build w a d t)) = commands t @ [spec_cmake_tokens kvs])"
proof -
  have l: "load_build_options w a (t @ [Makedirs (dirs_build d), Chdir (dirs_build d)]) =
             Inr (Dict kvs)"
    using ex ld ne by (simp add: load_build_options_def)
  have c: "command = cmake_call kvs"
    using cmd by (simp add: cmake_call_def args_string_concat)
  have s: "split command = spec_cmake_tokens kvs"
    if "\<forall>(arg, val) \<in> set kvs. \<forall>c \<in> set (arg @ val). \<not> is_space c"
    using that c split_cmake_call by simp
  show ?thesis
    unfolding configure_build_ok [OF mk cd l] c [symmetric]
    using s by (simp add: commands_append commands_prints)
qed

theorem cmake_invocation_witness:
  "commands (snd (configure_build
      (const_world None True Created
         (Some (Loaded Valid_JSON
                  (Dict [(''BUILD_EXAMPLES'', ''ON''), (''CMAKE_BUILD_TYPE'', ''DEBUG'')]))))
      (scenario_args\<lparr>build_options_file := ''opts.json''\<rparr>)
      \<lparr>dirs_root = ''/tmp/x'', dirs_opencv = ''/tmp/x/opencv'', dirs_build = ''/tmp/x/opencv/build''\<rparr>
      [])) =
     [[''cmake'', ''-D'', ''BUILD_EXAMPLES=ON'', ''-D'', ''CMAKE_BUILD_TYPE=DEBUG'', ''..'']]
   \<and> command_lines (snd (configure_build
      (const_world None True Created
         (Some (Loaded Valid_JSON
                  (Dict [(''BUILD_EXAMPLES'', ''ON''), (''CMAKE_BUILD_TYPE'', ''DEBUG'')]))))
      (scenario_args\<lparr>build_options_file := ''opts.json''\<rparr>)
      \<lparr>dirs_root = ''/tmp/x'', dirs_opencv = ''/tmp/x/opencv'', dirs_build = ''/tmp/x/opencv/build''\<rparr>
      [])) =
     [''cmake -D BUILD_EXAMPLES=ON -D CMAKE_BUILD_TYPE=DEBUG  ..'']"
proof -
  let ?kvs = "[(''BUILD_EXAMPLES'', ''ON''), (''CMAKE_BUILD_TYPE'', ''DEBUG'')]"
  let ?w = "const_world None True Created (Some (Loaded Valid_JSON (Dict ?kvs)))"
  let ?a = "scenario_args\<lparr>build_options_file := ''opts.json''\<rparr>"
  let ?d = "\<lparr>dirs_root = ''/tmp/x'', dirs_opencv = ''/tmp/x/opencv'', dirs_build = ''/tmp/x/opencv/build''\<rparr>"
  let ?c = "''cmake -D BUILD_EXAMPLES=ON -D CMAKE_BUILD_TYPE=DEBUG  ..''"
  have mk: "makedirs_result ?w [] (dirs_build ?d) \<noteq> Other_error"
    by (simp add: const_world_def)
  have cd: "chdir_ok ?w ([] @ [Makedirs (dirs_build ?d)]) (dirs_build ?d)"
    by (simp add: const_world_def)
  have ex: "os_path_exists ?w ([] @ [Makedirs (dirs_build ?d), Chdir (dirs_build ?d)])
              (build_options_file ?a)"
    by (simp add: const_world_def os_path_exists_def)
  have ld: "json_load ?w ([] @ [Makedirs (dirs_build ?d), Chdir (dirs_build ?d)])
              (build_options_file ?a) = Loaded Valid_JSON (Dict ?kvs)"
    by (simp add: const_world_def)
  have ne: "?kvs \<noteq> []" by simp
  have cmd: "?c = ''cmake '' @ concat (map (\<lambda>(arg, val). ''-D '' @ arg @ ''='' @ val @ '' '') ?kvs)
                @ '' ..''"
    by simp
  have ns: "\<forall>(arg, val) \<in> set ?kvs. \<forall>c \<in> set (arg @ val). \<not> is_space c"
    by (simp add: is_space_def)
  note th = cmake_invocation [OF mk cd ex ld ne cmd]
  have 1: "commands (snd (configure_build ?w ?a ?d [])) = commands [] @ [spec_cmake_tokens ?kvs]"
    using th ns by blast
  have 2: "snd (configure_build ?w ?a ?d []) =
            [] @ [Makedirs (dirs_build ?d), Chdir (dirs_build ?d),
                 Print ''Building OpenCV with the following options:'']
              @ map (\<lambda>(arg, val). Print (arg @ '': '' @ val)) ?kvs
              @ [Print [CHR 0x0A], Print ?c, Exec (split ?c)]"
    using th [THEN conjunct1] by simp
  have 3: "command_lines (snd (configure_build ?w ?a ?d [])) = [?c]"
    unfolding 2 by simp
  show ?thesis
    using 1 3 by (simp add: spec_cmake_tokens_def)
qed

text \<open>
  C6 as stated does not hold for a value with white space in it. For the mapping with
  the one entry \<open>CMAKE_CXX_FLAGS\<close>, \<open>-O2 -g\<close> the configurer runs five tokens: the token
  \<open>CMAKE_CXX_FLAGS=-O2 -g\<close> of the entry is not among them, and \<open>-g\<close> is a token of its
  own.
\<close>

theorem cmake_invocation_counterexample:
  "commands (snd (configure_build
      (const_world None True Created
         (Some (Loaded Valid_JSON (Dict [(''CMAKE_CXX_FLAGS'', ''-O2 -g'')]))))
      (scenario_args\<lparr>build_options_file := ''opts.json''\<rparr>)
      \<lparr>dirs_root = ''/tmp/x'', dirs_opencv = ''/tmp/x/opencv'', dirs_build = ''/tmp/x/opencv/build''\<rparr>
      [])) =
     [[''cmake'', ''-D'', ''CMAKE_CXX_FLAGS=-O2'', ''-g'', ''..'']]
   \<and> spec_cmake_tokens [(''CMAKE_CXX_FLAGS'', ''-O2 -g'')] =
       [''cmake'', ''-D'', ''CMAKE_CXX_FLAGS=-O2 -g'', ''..'']"
proof -
  let ?kvs = "[(''CMAKE_CXX_FLAGS'', ''-O2 -g'')]"
  let ?w = "const_world None True Created (Some (Loaded Valid_JSON (Dict ?kvs)))"
  let ?a = "scenario_args\<lparr>build_options_file := ''opts.json''\<rparr>"
  let ?d = "\<lparr>dirs_root = ''/tmp/x'', dirs_opencv = ''/tmp/x/opencv'', dirs_build = ''/tmp/x/opencv/build''\<rparr>"
  have mk: "makedirs_result ?w [] (dirs_build ?d) \<noteq> Other_error"
    by (simp add: const_world_def)
  have cd: "chdir_ok ?w ([] @ [Makedirs (dirs_build ?d)]) (dirs_build ?d)"
    by (simp add: const_world_def)
  have ld: "load_build_options ?w ?a ([] @ [Makedirs (dirs_build ?d), Chdir (dirs_build ?d)]) =
              Inr (Dict ?kvs)"
    by (simp add: load_build_options_def os_path_exists_def const_world_def)
  have s: "split (cmake_call ?kvs) = [''cmake'', ''-D'', ''CMAKE_CXX_FLAGS=-O2'', ''-g'', ''..'']"
    by (simp add: cmake_call_def args_string_def split_def is_space_def)
  have "commands (snd (configure_build ?w ?a ?d [])) = [split (cmake_call ?kvs)]"
    unfolding configure_build_ok [OF mk cd ld] by simp
  then show ?thesis
    using s by (simp add: spec_cmake_tokens_def)
qed

end
